theory Spec2Isabelle
  imports Complex_Main "HOL-Library.FSet" "HOL-Library.Sublist"
begin

section \<open>Floating-point values\<close>

text \<open>
  The analyzer computes on pandas/numpy float64 values. A value is a real number or one of
  the three special values of IEEE arithmetic; a missing entry of a pandas Series is
  \<open>NaN\<close>. The operations of this section give the exact result. Overflow and the sign
  of zero are not represented.
\<close>

datatype fval = NaN | Num real | PInf | NInf

fun fneg :: "fval \<Rightarrow> fval" where
  "fneg NaN = NaN"
| "fneg (Num a) = Num (- a)"
| "fneg PInf = NInf"
| "fneg NInf = PInf"

fun fabs :: "fval \<Rightarrow> fval" where
  "fabs NaN = NaN"
| "fabs (Num a) = Num \<bar>a\<bar>"
| "fabs PInf = PInf"
| "fabs NInf = PInf"

fun fadd :: "fval \<Rightarrow> fval \<Rightarrow> fval" where
  "fadd (Num a) (Num b) = Num (a + b)"
| "fadd NaN _ = NaN"
| "fadd _ NaN = NaN"
| "fadd PInf NInf = NaN"
| "fadd NInf PInf = NaN"
| "fadd PInf _ = PInf"
| "fadd _ PInf = PInf"
| "fadd NInf _ = NInf"
| "fadd _ NInf = NInf"

definition fsub :: "fval \<Rightarrow> fval \<Rightarrow> fval" where
  "fsub a b = fadd a (fneg b)"

fun fmul :: "fval \<Rightarrow> fval \<Rightarrow> fval" where
  "fmul (Num a) (Num b) = Num (a * b)"
| "fmul NaN _ = NaN"
| "fmul _ NaN = NaN"
| "fmul PInf (Num b) = (if b = 0 then NaN else if 0 < b then PInf else NInf)"
| "fmul NInf (Num b) = (if b = 0 then NaN else if 0 < b then NInf else PInf)"
| "fmul (Num a) PInf = (if a = 0 then NaN else if 0 < a then PInf else NInf)"
| "fmul (Num a) NInf = (if a = 0 then NaN else if 0 < a then NInf else PInf)"
| "fmul PInf PInf = PInf"
| "fmul NInf NInf = PInf"
| "fmul PInf NInf = NInf"
| "fmul NInf PInf = NInf"

fun fdiv :: "fval \<Rightarrow> fval \<Rightarrow> fval" where
  "fdiv (Num a) (Num b) =
     (if b = 0 then (if a = 0 then NaN else if 0 < a then PInf else NInf)
      else Num (a / b))"
| "fdiv NaN _ = NaN"
| "fdiv _ NaN = NaN"
| "fdiv (Num a) PInf = Num 0"
| "fdiv (Num a) NInf = Num 0"
| "fdiv PInf (Num b) = (if 0 \<le> b then PInf else NInf)"
| "fdiv NInf (Num b) = (if 0 \<le> b then NInf else PInf)"
| "fdiv PInf PInf = NaN"
| "fdiv PInf NInf = NaN"
| "fdiv NInf PInf = NaN"
| "fdiv NInf NInf = NaN"

text \<open>Comparisons: every comparison with \<open>NaN\<close> is false.\<close>

fun flt :: "fval \<Rightarrow> fval \<Rightarrow> bool" where
  "flt (Num a) (Num b) = (a < b)"
| "flt NaN _ = False"
| "flt _ NaN = False"
| "flt NInf NInf = False"
| "flt NInf _ = True"
| "flt PInf _ = False"
| "flt (Num a) PInf = True"
| "flt (Num a) NInf = False"

fun fle :: "fval \<Rightarrow> fval \<Rightarrow> bool" where
  "fle (Num a) (Num b) = (a \<le> b)"
| "fle NaN _ = False"
| "fle _ NaN = False"
| "fle NInf _ = True"
| "fle PInf PInf = True"
| "fle PInf _ = False"
| "fle (Num a) PInf = True"
| "fle (Num a) NInf = False"

definition fgt :: "fval \<Rightarrow> fval \<Rightarrow> bool" where
  "fgt a b = flt b a"

definition fge :: "fval \<Rightarrow> fval \<Rightarrow> bool" where
  "fge a b = fle b a"

subsection \<open>Rounding\<close>

text \<open>
  The floating-point unit: \<open>fp_round\<close> takes the exact result of an operation to
  the float64 the machine returns, and \<open>fp_rolling_mean p xs\<close> is the last entry of
  \<open>xs.rolling(window=p).mean()\<close> as pandas accumulates it, for a series \<open>xs\<close> of
  at least \<open>p\<close> finite observations. The breakout detection and the criticality
  checks, where a comparison of computed values decides the outcome, use the rounded
  operations; the indicator series themselves are computed on the reals. A finite result
  stays finite: the overflow of a product to an infinity is not part of the model.
\<close>

record fpu =
  fp_round :: "real \<Rightarrow> real"
  fp_rolling_mean :: "nat \<Rightarrow> real list \<Rightarrow> real"

fun rnd :: "fpu \<Rightarrow> fval \<Rightarrow> fval" where
  "rnd fp (Num a) = Num (fp_round fp a)"
| "rnd fp v = v"

definition radd :: "fpu \<Rightarrow> fval \<Rightarrow> fval \<Rightarrow> fval" where
  "radd fp a b = rnd fp (fadd a b)"

definition rsub :: "fpu \<Rightarrow> fval \<Rightarrow> fval \<Rightarrow> fval" where
  "rsub fp a b = rnd fp (fsub a b)"

definition rmul :: "fpu \<Rightarrow> fval \<Rightarrow> fval \<Rightarrow> fval" where
  "rmul fp a b = rnd fp (fmul a b)"

definition rdiv :: "fpu \<Rightarrow> fval \<Rightarrow> fval \<Rightarrow> fval" where
  "rdiv fp a b = rnd fp (fdiv a b)"

text \<open>The float64 that the literal \<open>0.02\<close> denotes.\<close>

definition double_0_02 :: real where
  "double_0_02 = 5764607523034235 / 2 ^ 58"

section \<open>Python values, exceptions and indexing\<close>

datatype py_exn =
    ValueError string
  | IndexError
  | OverflowError
  | ExternalError string

datatype pyval = PyNone | PyFloat fval | PyStr string | PyBool bool

text \<open>
  \<open>xs.iloc[i]\<close>: a negative position counts from the end; a position outside the
  Series raises \<open>IndexError\<close>.
\<close>

definition iloc :: "'a list \<Rightarrow> int \<Rightarrow> py_exn + 'a" where
  "iloc xs i =
     (let pos = (if 0 \<le> i then i else i + int (length xs))
      in if pos < 0 \<or> int (length xs) \<le> pos then Inl IndexError
         else Inr (xs ! nat pos))"

text \<open>
  Truth value of an optional float in \<open>if x:\<close>: \<open>None\<close> and zero are false, every other
  float (also not-a-number) is true.
\<close>

fun truthy :: "fval option \<Rightarrow> bool" where
  "truthy None = False"
| "truthy (Some (Num a)) = (a \<noteq> 0)"
| "truthy (Some _) = True"

section \<open>Configuration (config/config.py)\<close>

record config =
  SYMBOLS_TO_MONITOR :: "string list"
  TIMEFRAMES_default :: string
  TIMEFRAMES_available :: "string list"
  ANALYSIS_default_days :: int
  ANALYSIS_max_days :: int
  MA_periods :: "nat list"
  MA_default_period :: nat
  RSI_period :: nat
  Bollinger_period :: nat
  Bollinger_std_dev :: real
  TREND_min_points :: nat
  TREND_breakout_threshold :: real

definition Config :: config where
  "Config = \<lparr>
     SYMBOLS_TO_MONITOR = [''BTCUSDT'', ''ETHUSDT'', ''SOLUSDT''],
     TIMEFRAMES_default = ''1d'',
     TIMEFRAMES_available =
       [''1m'', ''3m'', ''5m'', ''15m'', ''30m'',
        ''1h'', ''2h'', ''4h'', ''6h'', ''8h'', ''12h'',
        ''1d'', ''3d'', ''1w'', ''1M''],
     ANALYSIS_default_days = 30,
     ANALYSIS_max_days = 365,
     MA_periods = [5, 10, 20, 50, 100, 200],
     MA_default_period = 20,
     RSI_period = 14,
     Bollinger_period = 20,
     Bollinger_std_dev = 2,
     TREND_min_points = 5,
     TREND_breakout_threshold = double_0_02
   \<rparr>"

definition get_timeframe :: "config \<Rightarrow> string option \<Rightarrow> string" where
  "get_timeframe cfg timeframe =
     (case timeframe of
        None \<Rightarrow> TIMEFRAMES_default cfg
      | Some tf \<Rightarrow>
          if tf \<noteq> [] \<and> tf \<in> set (TIMEFRAMES_available cfg) then tf
          else TIMEFRAMES_default cfg)"

definition is_valid_symbol :: "config \<Rightarrow> string \<Rightarrow> bool" where
  "is_valid_symbol cfg symbol = (symbol \<in> set (SYMBOLS_TO_MONITOR cfg))"

section \<open>Candles and rolling windows\<close>

text \<open>
  One row of the fetched DataFrame. The exchange sends decimal strings, converted by
  \<open>astype(float)\<close>; they are taken to be finite numbers.
\<close>

record candle =
  c_timestamp :: int
  c_open :: real
  c_high :: real
  c_low :: real
  c_close :: real
  c_volume :: real

definition column :: "(candle \<Rightarrow> real) \<Rightarrow> candle list \<Rightarrow> fval list" where
  "column f cs = map (\<lambda>c. Num (f c)) cs"

text \<open>
  \<open>Series.rolling(window=p)\<close> with the default \<open>min_periods = p\<close>: the window of
  position \<open>i\<close> holds the entries \<open>i-p+1 .. i\<close> that exist, and the statistic is missing
  unless the window holds \<open>p\<close> observations that are not missing. The statistics below
  are taken over finite observations.
\<close>

definition window :: "nat \<Rightarrow> nat \<Rightarrow> 'a list \<Rightarrow> 'a list" where
  "window p i xs = drop (Suc i - p) (take (Suc i) xs)"

fun reals_of :: "fval list \<Rightarrow> real list option" where
  "reals_of [] = Some []"
| "reals_of (Num a # vs) = (case reals_of vs of None \<Rightarrow> None | Some rs \<Rightarrow> Some (a # rs))"
| "reals_of (_ # vs) = None"

definition rolling :: "(real list \<Rightarrow> fval) \<Rightarrow> nat \<Rightarrow> fval list \<Rightarrow> fval list" where
  "rolling agg p xs =
     map (\<lambda>i. let w = window p i xs
               in if length w < p then NaN
                  else (case reals_of w of None \<Rightarrow> NaN | Some rs \<Rightarrow> agg rs))
         [0..<length xs]"

definition mean_agg :: "real list \<Rightarrow> fval" where
  "mean_agg rs = (if rs = [] then NaN else Num (sum_list rs / real (length rs)))"

definition min_agg :: "real list \<Rightarrow> fval" where
  "min_agg rs = (if rs = [] then NaN else Num (Min (set rs)))"

definition max_agg :: "real list \<Rightarrow> fval" where
  "max_agg rs = (if rs = [] then NaN else Num (Max (set rs)))"

text \<open>Sample standard deviation (\<open>ddof = 1\<close>), the default of \<open>rolling(...).std()\<close>.\<close>

definition std_agg :: "real list \<Rightarrow> fval" where
  "std_agg rs =
     (if length rs < 2 then NaN
      else let m = sum_list rs / real (length rs)
           in Num (sqrt (sum_list (map (\<lambda>x. (x - m)\<^sup>2) rs) / real (length rs - 1))))"

text \<open>\<open>_calculate_support_resistance\<close>: rolling minimum of the lows, rolling maximum of
  the highs, both over the default moving-average period.\<close>

definition calculate_support_resistance :: "config \<Rightarrow> candle list \<Rightarrow> fval list \<times> fval list" where
  "calculate_support_resistance cfg cs =
     (let period = MA_default_period cfg;
          support = rolling min_agg period (column c_low cs);
          resistance = rolling max_agg period (column c_high cs)
      in (support, resistance))"

section \<open>Indicator engine (src/analyzer.py)\<close>

text \<open>
  The DataFrame after \<open>calculate_technical_indicators\<close>: the fetched rows and one
  column for each derived series.
\<close>

record frame =
  f_candles :: "candle list"
  f_MA :: "(nat \<times> fval list) list"
  f_trend_line :: "fval list"
  f_support :: "fval list"
  f_resistance :: "fval list"
  f_BB_middle :: "fval list"
  f_BB_upper :: "fval list"
  f_BB_lower :: "fval list"
  f_RSI :: "fval list"
  f_trend_break :: "fval list"

text \<open>\<open>Series.shift(1)\<close>: every entry moves one position down, the first is missing.\<close>

definition shift1 :: "fval list \<Rightarrow> fval list" where
  "shift1 xs = (if xs = [] then [] else NaN # butlast xs)"

text \<open>\<open>Series.diff()\<close>: the entry minus the entry before it.\<close>

definition diff :: "fval list \<Rightarrow> fval list" where
  "diff xs = map2 fsub xs (shift1 xs)"

text \<open>\<open>xs.where(cond, other)\<close> keeps the entry where \<open>cond\<close> holds and puts \<open>other\<close>
  elsewhere; \<open>xs[mask] = v\<close> overwrites the entries the mask selects.\<close>

definition where_series :: "fval list \<Rightarrow> bool list \<Rightarrow> fval \<Rightarrow> fval list" where
  "where_series xs cond other = map2 (\<lambda>x c. if c then x else other) xs cond"

definition mask_assign :: "fval list \<Rightarrow> bool list \<Rightarrow> fval \<Rightarrow> fval list" where
  "mask_assign xs sel v = map2 (\<lambda>x m. if m then v else x) xs sel"

text \<open>
  \<open>np.polyfit(x, y, 1)\<close>: the least-squares line, as (slope, intercept). The model takes
  the exact least-squares solution, which numpy approximates; it is the solution for two
  or more points, and the analyzer fits five or more.
\<close>

definition polyfit1 :: "real list \<Rightarrow> real list \<Rightarrow> real \<times> real" where
  "polyfit1 x y =
     (let n = real (length x);
          sx = sum_list x;
          sy = sum_list y;
          sxx = sum_list (map (\<lambda>a. a * a) x);
          sxy = sum_list (map2 (*) x y);
          slope = (n * sxy - sx * sy) / (n * sxx - sx * sx);
          intercept = (sy - slope * sx) / n
      in (slope, intercept))"

definition calculate_trend_line :: "config \<Rightarrow> real list \<Rightarrow> fval list" where
  "calculate_trend_line cfg prices =
     (if length prices < TREND_min_points cfg then replicate (length prices) NaN
      else let x = map real [0..<length prices];
               coefficients = polyfit1 x prices
           in map (\<lambda>xi. Num (fst coefficients * xi + snd coefficients)) x)"

text \<open>The smoothed gains and losses and the RSI of \<open>calculate_technical_indicators\<close>.\<close>

definition rsi_gain :: "nat \<Rightarrow> fval list \<Rightarrow> fval list" where
  "rsi_gain rsi_period close =
     (let delta = diff close
      in rolling mean_agg rsi_period
           (where_series delta (map (\<lambda>d. fgt d (Num 0)) delta) (Num 0)))"

definition rsi_loss :: "nat \<Rightarrow> fval list \<Rightarrow> fval list" where
  "rsi_loss rsi_period close =
     (let delta = diff close
      in rolling mean_agg rsi_period
           (map fneg (where_series delta (map (\<lambda>d. flt d (Num 0)) delta) (Num 0))))"

definition rsi_series :: "nat \<Rightarrow> fval list \<Rightarrow> fval list" where
  "rsi_series rsi_period close =
     (let gain = rsi_gain rsi_period close;
          loss = rsi_loss rsi_period close;
          rs = map2 fdiv gain loss
      in map (\<lambda>r. fsub (Num 100) (fdiv (Num 100) (fadd (Num 1) r))) rs)"

text \<open>
  \<open>_detect_trend_breaks\<close>: the series starts all missing; the up-breaks are set to 1,
  then the down-breaks to -1.
\<close>

definition detect_trend_breaks :: "fpu \<Rightarrow> config \<Rightarrow> frame \<Rightarrow> fval list" where
  "detect_trend_breaks fp cfg df =
     (let breaks = replicate (length (f_candles df)) NaN;
          breakout_threshold = TREND_breakout_threshold cfg;
          close = column c_close (f_candles df);
          up_break =
            map2 (\<and>)
              (map2 fgt close
                 (map (\<lambda>r. rmul fp r (radd fp (Num 1) (Num breakout_threshold)))
                      (shift1 (f_resistance df))))
              (map2 fle (shift1 close) (shift1 (f_resistance df)));
          down_break =
            map2 (\<and>)
              (map2 flt close
                 (map (\<lambda>s. rmul fp s (rsub fp (Num 1) (Num breakout_threshold)))
                      (shift1 (f_support df))))
              (map2 fge (shift1 close) (shift1 (f_support df)));
          breaks = mask_assign breaks up_break (Num 1);
          breaks = mask_assign breaks down_break (Num (- 1))
      in breaks)"

definition calculate_technical_indicators ::
  "fpu \<Rightarrow> config \<Rightarrow> candle list \<Rightarrow> frame" where
  "calculate_technical_indicators fp cfg cs =
     (let close = column c_close cs;
          sr = calculate_support_resistance cfg cs;
          bb_period = Bollinger_period cfg;
          bb_std = Bollinger_std_dev cfg;
          BB_middle = rolling mean_agg bb_period close;
          std = rolling std_agg bb_period close;
          df = \<lparr> f_candles = cs,
                 f_MA = map (\<lambda>period. (period, rolling mean_agg period close)) (MA_periods cfg),
                 f_trend_line = calculate_trend_line cfg (map c_close cs),
                 f_support = fst sr,
                 f_resistance = snd sr,
                 f_BB_middle = BB_middle,
                 f_BB_upper = map2 fadd BB_middle (map (\<lambda>s. fmul s (Num bb_std)) std),
                 f_BB_lower = map2 fsub BB_middle (map (\<lambda>s. fmul s (Num bb_std)) std),
                 f_RSI = rsi_series (RSI_period cfg) close,
                 f_trend_break = [] \<rparr>
      in df\<lparr> f_trend_break := detect_trend_breaks fp cfg df \<rparr>)"

section \<open>Breakout and criticality checks\<close>

text \<open>\<open>df.tail(k)\<close>: the last \<open>k\<close> rows.\<close>

definition tail :: "nat \<Rightarrow> 'a list \<Rightarrow> 'a list" where
  "tail k xs = drop (length xs - k) xs"

text \<open>
  \<open>_check_fake_breakout\<close>. The body is the \<open>try\<close> block; an exception in it is logged
  and the answer is \<open>False\<close>.
\<close>

definition check_fake_breakout_body :: "frame \<Rightarrow> py_exn + bool" where
  "check_fake_breakout_body df =
     (if length (f_candles df) < 3 then Inr False
      else
        let last_three = tail 3 (f_candles df)
        in case iloc (f_resistance df) (- 3) of
             Inl e \<Rightarrow> Inl e
           | Inr resistance \<Rightarrow>
               if fgt (Num (c_high (last_three ! 0))) resistance \<and>
                  fgt (Num (c_close (last_three ! 1))) resistance \<and>
                  flt (Num (c_close (last_three ! 2))) resistance
               then Inr True
               else (case iloc (f_support df) (- 3) of
                       Inl e \<Rightarrow> Inl e
                     | Inr support \<Rightarrow>
                         if flt (Num (c_low (last_three ! 0))) support \<and>
                            flt (Num (c_close (last_three ! 1))) support \<and>
                            fgt (Num (c_close (last_three ! 2))) support
                         then Inr True
                         else Inr False))"

definition check_fake_breakout :: "frame \<Rightarrow> bool" where
  "check_fake_breakout df =
     (case check_fake_breakout_body df of Inl e \<Rightarrow> False | Inr b \<Rightarrow> b)"

text \<open>
  \<open>_is_critical_moment\<close>. The current price is the last close, a float; the trend line,
  support, resistance and RSI are floats or \<open>None\<close>.
\<close>

text \<open>
  \<open>xs.rolling(window=p).mean()\<close> on finite observations, with the mean that the
  machine computes: missing until the window is full.
\<close>

definition rolling_mean_fp :: "fpu \<Rightarrow> nat \<Rightarrow> real list \<Rightarrow> fval list" where
  "rolling_mean_fp fp p xs =
     map (\<lambda>i. if p = 0 \<or> Suc i < p then NaN
               else Num (fp_rolling_mean fp p (take (Suc i) xs)))
         [0..<length xs]"

definition volume_spike :: "fpu \<Rightarrow> frame \<Rightarrow> py_exn + bool" where
  "volume_spike fp df =
     (let volume = map c_volume (f_candles df)
      in if volume = [] then Inr False
         else
           let avg_volume = rolling_mean_fp fp 20 volume
           in case iloc volume (- 1) of
                Inl e \<Rightarrow> Inl e
              | Inr current_volume \<Rightarrow>
                  (case iloc avg_volume (- 1) of
                     Inl e \<Rightarrow> Inl e
                   | Inr avg \<Rightarrow> Inr (fgt (Num current_volume) (rmul fp avg (Num 2)))))"

definition is_critical_moment_body ::
  "fpu \<Rightarrow> config \<Rightarrow> frame \<Rightarrow> fval \<Rightarrow> fval option \<Rightarrow> fval option \<Rightarrow> fval option \<Rightarrow> fval option
     \<Rightarrow> py_exn + bool" where
  "is_critical_moment_body fp cfg df current_price trend_line support resistance rsi =
     (let trend_break =
            (case trend_line of
               None \<Rightarrow> False
             | Some t \<Rightarrow>
                 truthy trend_line \<and>
                 fgt (rdiv fp (fabs (rsub fp current_price t)) t)
                     (Num (TREND_breakout_threshold cfg)));
          support_resistance_break =
            (case (support, resistance) of
               (Some s, Some r) \<Rightarrow>
                 truthy support \<and> truthy resistance \<and>
                 (let price_threshold = rmul fp (rsub fp r s) (Num double_0_02)
                  in flt (fabs (rsub fp current_price s)) price_threshold \<or>
                     flt (fabs (rsub fp current_price r)) price_threshold)
             | _ \<Rightarrow> False);
          rsi_extreme =
            (case rsi of
               None \<Rightarrow> False
             | Some v \<Rightarrow> fge v (Num 70) \<or> fle v (Num 30))
      in case volume_spike fp df of
           Inl e \<Rightarrow> Inl e
         | Inr spike \<Rightarrow>
             (let fake_breakout = check_fake_breakout df
              in Inr (trend_break \<or> support_resistance_break \<or> rsi_extreme \<or>
                      spike \<or> fake_breakout)))"

definition is_critical_moment ::
  "fpu \<Rightarrow> config \<Rightarrow> frame \<Rightarrow> fval \<Rightarrow> fval option \<Rightarrow> fval option \<Rightarrow> fval option \<Rightarrow> fval option
     \<Rightarrow> bool" where
  "is_critical_moment fp cfg df current_price trend_line support resistance rsi =
     (case is_critical_moment_body fp cfg df current_price trend_line support resistance rsi of
        Inl e \<Rightarrow> False
      | Inr b \<Rightarrow> b)"

section \<open>Fetching the series\<close>

text \<open>
  The parts of the world the analyzer calls. \<open>start_time_of d\<close> stands for
  \<open>int((datetime.now() - timedelta(days=d)).timestamp() * 1000)\<close>, which raises when
  the date leaves the range of \<open>datetime\<close>. \<open>get_historical_klines\<close> is the exchange
  request together with the conversion of its answer into rows; any failure of either is
  its exception. \<open>ai_analysis\<close> is the language-model call of \<open>_perform_ai_analysis\<close>
  (\<open>None\<close> when it fails), \<open>basic_analysis\<close> the text of \<open>_generate_basic_analysis\<close>
  and \<open>exn_text\<close> is \<open>str(e)\<close>; the formatting of floats into text is not modelled.
  \<open>float_unit\<close> is the floating-point unit of the machine. Text is held as its UTF-8
  bytes.
\<close>

record env =
  start_time_of :: "int \<Rightarrow> py_exn + int"
  get_historical_klines :: "string \<Rightarrow> string \<Rightarrow> int \<Rightarrow> py_exn + candle list"
  ai_analysis :: "string \<Rightarrow> (string \<rightharpoonup> pyval) \<Rightarrow> frame \<Rightarrow> string option"
  basic_analysis :: "(string \<rightharpoonup> pyval) \<Rightarrow> string"
  exn_text :: "py_exn \<Rightarrow> string"
  float_unit :: fpu

type_synonym request = "string \<times> string \<times> int"

definition invalid_symbol_prefix :: string where
  "invalid_symbol_prefix =
     [CHR 0xE7, CHR 0x84, CHR 0xA1, CHR 0xE6, CHR 0x95, CHR 0x88, CHR 0xE7, CHR 0x9A,
      CHR 0x84, CHR 0xE4, CHR 0xBA, CHR 0xA4, CHR 0xE6, CHR 0x98, CHR 0x93, CHR 0xE5,
      CHR 0xB0, CHR 0x8D, CHR 0x3A, CHR 0x20]"

text \<open>\<open>interval or default\<close> and \<open>days or default\<close>, then the cap on the days.\<close>

definition effective_interval :: "config \<Rightarrow> string option \<Rightarrow> string" where
  "effective_interval cfg interval =
     (case interval of
        None \<Rightarrow> TIMEFRAMES_default cfg
      | Some s \<Rightarrow> if s = [] then TIMEFRAMES_default cfg else s)"

definition effective_days :: "config \<Rightarrow> int option \<Rightarrow> int" where
  "effective_days cfg days =
     (let days = (case days of
                    None \<Rightarrow> ANALYSIS_default_days cfg
                  | Some d \<Rightarrow> if d = 0 then ANALYSIS_default_days cfg else d)
      in if days > ANALYSIS_max_days cfg then ANALYSIS_max_days cfg else days)"

text \<open>
  \<open>get_historical_data\<close>. The body is the \<open>try\<close> block: its result, and the requests it
  sent to the exchange. Any exception is printed and \<open>None\<close> is returned.
\<close>

definition get_historical_data_body ::
  "config \<Rightarrow> env \<Rightarrow> string \<Rightarrow> string option \<Rightarrow> int option
     \<Rightarrow> (py_exn + candle list) \<times> request list" where
  "get_historical_data_body cfg ev symbol interval days =
     (let interval = effective_interval cfg interval;
          days = effective_days cfg days
      in case start_time_of ev days of
           Inl e \<Rightarrow> (Inl e, [])
         | Inr start_time \<Rightarrow>
             if \<not> is_valid_symbol cfg symbol
             then (Inl (ValueError (invalid_symbol_prefix @ symbol)), [])
             else (get_historical_klines ev symbol interval start_time,
                   [(symbol, interval, start_time)]))"

definition get_historical_data ::
  "config \<Rightarrow> env \<Rightarrow> string \<Rightarrow> string option \<Rightarrow> int option
     \<Rightarrow> candle list option \<times> request list" where
  "get_historical_data cfg ev symbol interval days =
     (case get_historical_data_body cfg ev symbol interval days of
        (Inl e, sent) \<Rightarrow> (None, sent)
      | (Inr df, sent) \<Rightarrow> (Some df, sent))"

section \<open>Analysis of one symbol\<close>

record analysis_result =
  technical_data :: "string \<rightharpoonup> pyval"
  analysis :: string

definition msg_no_market_data :: string where
  "msg_no_market_data =
     [CHR 0xE7, CHR 0x84, CHR 0xA1, CHR 0xE6, CHR 0xB3, CHR 0x95, CHR 0xE7, CHR 0x8D,
      CHR 0xB2, CHR 0xE5, CHR 0x8F, CHR 0x96, CHR 0xE5, CHR 0xB8, CHR 0x82, CHR 0xE5,
      CHR 0xA0, CHR 0xB4, CHR 0xE6, CHR 0x95, CHR 0xB8, CHR 0xE6, CHR 0x93, CHR 0x9A]"

definition msg_no_break :: string where
  "msg_no_break =
     [CHR 0xE7, CHR 0x84, CHR 0xA1, CHR 0xE6, CHR 0x98, CHR 0x8E, CHR 0xE9, CHR 0xA1,
      CHR 0xAF, CHR 0xE7, CHR 0xAA, CHR 0x81, CHR 0xE7, CHR 0xA0, CHR 0xB4]"

definition msg_up_break :: string where
  "msg_up_break =
     [CHR 0xE6, CHR 0x9C, CHR 0x80, CHR 0xE8, CHR 0xBF, CHR 0x91, CHR 0xE5, CHR 0x87,
      CHR 0xBA, CHR 0xE7, CHR 0x8F, CHR 0xBE, CHR 0xE5, CHR 0x90, CHR 0x91, CHR 0xE4,
      CHR 0xB8, CHR 0x8A, CHR 0xE7, CHR 0xAA, CHR 0x81, CHR 0xE7, CHR 0xA0, CHR 0xB4]"

definition msg_down_break :: string where
  "msg_down_break =
     [CHR 0xE6, CHR 0x9C, CHR 0x80, CHR 0xE8, CHR 0xBF, CHR 0x91, CHR 0xE5, CHR 0x87,
      CHR 0xBA, CHR 0xE7, CHR 0x8F, CHR 0xBE, CHR 0xE5, CHR 0x90, CHR 0x91, CHR 0xE4,
      CHR 0xB8, CHR 0x8B, CHR 0xE7, CHR 0xAA, CHR 0x81, CHR 0xE7, CHR 0xA0, CHR 0xB4]"

definition msg_error_prefix :: string where
  "msg_error_prefix =
     [CHR 0xE5, CHR 0x88, CHR 0x86, CHR 0xE6, CHR 0x9E, CHR 0x90, CHR 0xE9, CHR 0x8C,
      CHR 0xAF, CHR 0xE8, CHR 0xAA, CHR 0xA4, CHR 0x3A, CHR 0x20]"

definition perform_ai_analysis ::
  "env \<Rightarrow> string \<Rightarrow> (string \<rightharpoonup> pyval) \<Rightarrow> frame \<Rightarrow> string" where
  "perform_ai_analysis ev symbol td df =
     (case ai_analysis ev symbol td df of
        Some text \<Rightarrow> text
      | None \<Rightarrow> basic_analysis ev td)"

text \<open>The \<open>try\<close> block of \<open>analyze_trends\<close> once the rows are there.\<close>

definition analyze_frame :: "config \<Rightarrow> env \<Rightarrow> string \<Rightarrow> candle list \<Rightarrow> py_exn + analysis_result" where
  "analyze_frame cfg ev symbol cs =
     (let df = calculate_technical_indicators (float_unit ev) cfg cs
      in case iloc (column c_close cs) (- 1) of Inl e \<Rightarrow> Inl e | Inr current_price \<Rightarrow>
         case iloc (f_trend_line df) (- 1) of Inl e \<Rightarrow> Inl e | Inr trend_line_value \<Rightarrow>
         case iloc (f_support df) (- 1) of Inl e \<Rightarrow> Inl e | Inr support \<Rightarrow>
         case iloc (f_resistance df) (- 1) of Inl e \<Rightarrow> Inl e | Inr resistance \<Rightarrow>
         case iloc (f_RSI df) (- 1) of Inl e \<Rightarrow> Inl e | Inr rsi \<Rightarrow>
           (let is_critical =
                  is_critical_moment (float_unit ev) cfg df current_price (Some trend_line_value)
                    (Some support) (Some resistance) (Some rsi);
                recent_breaks = tail 5 (filter (\<lambda>v. v \<noteq> NaN) (f_trend_break df));
                break_analysis =
                  (if Num 1 \<in> set recent_breaks then msg_up_break
                   else if Num (- 1) \<in> set recent_breaks then msg_down_break
                   else msg_no_break);
                td = map_of
                  [(''current_price'', PyFloat current_price),
                   (''trend_line'', PyFloat trend_line_value),
                   (''support'', PyFloat support),
                   (''resistance'', PyFloat resistance),
                   (''rsi'', PyFloat rsi),
                   (''break_analysis'', PyStr break_analysis),
                   (''is_critical'', PyBool is_critical)];
                analysis_text =
                  (if is_critical then perform_ai_analysis ev symbol td df
                   else basic_analysis ev td)
            in Inr \<lparr> technical_data = td, analysis = analysis_text \<rparr>))"

definition analyze_trends ::
  "config \<Rightarrow> env \<Rightarrow> string \<Rightarrow> string option \<Rightarrow> int option \<Rightarrow> analysis_result" where
  "analyze_trends cfg ev symbol interval days =
     (case fst (get_historical_data cfg ev symbol interval days) of
        None \<Rightarrow>
          \<lparr> technical_data = map_of
              [(''break_analysis'', PyStr ''N/A''),
               (''current_price'', PyNone),
               (''trend_line'', PyNone),
               (''support'', PyNone),
               (''resistance'', PyNone),
               (''rsi'', PyNone)],
            analysis = msg_no_market_data \<rparr>
      | Some cs \<Rightarrow>
          (case analyze_frame cfg ev symbol cs of
             Inr result \<Rightarrow> result
           | Inl e \<Rightarrow>
               \<lparr> technical_data = map_of
                   [(''break_analysis'', PyStr ''Error''),
                    (''current_price'', PyNone),
                    (''trend_line'', PyNone),
                    (''support'', PyNone),
                    (''resistance'', PyNone),
                    (''rsi'', PyNone),
                    (''is_critical'', PyBool False)],
                 analysis = msg_error_prefix @ exn_text ev e \<rparr>))"

section \<open>Alert ledger (main.py)\<close>

record 'i alert =
  message :: string
  timestamp :: int
  a_id :: 'i

record 'i agent =
  alerts :: "'i alert list"
  processed_alerts :: "'i fset"

definition agent_init :: "'i agent" where
  "agent_init = \<lparr> alerts = [], processed_alerts = {||} \<rparr>"

text \<open>\<open>add_alert\<close>; \<open>now\<close> is the reading of the clock for the new alert.\<close>

definition add_alert :: "'i agent \<Rightarrow> int \<Rightarrow> string \<Rightarrow> 'i \<Rightarrow> 'i agent" where
  "add_alert s now msg alert_id =
     (if alert_id |\<notin>| processed_alerts s then
        let new_alert = \<lparr> message = msg, timestamp = now, a_id = alert_id \<rparr>;
            alerts1 = alerts s @ [new_alert];
            processed1 = finsert alert_id (processed_alerts s);
            alerts2 = (if length alerts1 > 5 then tail 5 alerts1 else alerts1);
            processed2 =
              (if fcard processed1 > 1000 then fset_of_list (map a_id alerts2)
               else processed1)
        in \<lparr> alerts = alerts2, processed_alerts = processed2 \<rparr>
      else s)"

text \<open>A sequence of calls, each with its clock reading, message and id.\<close>

fun add_alerts :: "'i agent \<Rightarrow> (int \<times> string \<times> 'i) list \<Rightarrow> 'i agent" where
  "add_alerts s [] = s"
| "add_alerts s ((now, msg, alert_id) # calls) =
     add_alerts (add_alert s now msg alert_id) calls"

section \<open>The specification's notions\<close>

text \<open>
  The fake-breakout patterns of the specification, over three consecutive bars and a
  reference level: the first bar pierces the level, the second closes beyond it, the
  third closes back on the other side.
\<close>

definition up_fake :: "candle \<Rightarrow> candle \<Rightarrow> candle \<Rightarrow> fval \<Rightarrow> bool" where
  "up_fake bar0 bar1 bar2 reference =
     (fgt (Num (c_high bar0)) reference \<and> fgt (Num (c_close bar1)) reference \<and>
      flt (Num (c_close bar2)) reference)"

definition down_fake :: "candle \<Rightarrow> candle \<Rightarrow> candle \<Rightarrow> fval \<Rightarrow> bool" where
  "down_fake bar0 bar1 bar2 reference =
     (flt (Num (c_low bar0)) reference \<and> flt (Num (c_close bar1)) reference \<and>
      fgt (Num (c_close bar2)) reference)"

text \<open>
  The five clauses of the criticality rule of the specification, in the arithmetic of a
  floating-point unit. A value is undefined when it is absent or not a number; a clause
  with an undefined input is false. The volume clause needs 20 bars for the rolling
  average to be defined. The fake-breakout clause reads the last three bars and the
  third-last resistance and support.
\<close>

definition clause_trend_deviation :: "fpu \<Rightarrow> real \<Rightarrow> fval \<Rightarrow> fval option \<Rightarrow> bool" where
  "clause_trend_deviation fp threshold currentPrice trendLine =
     (case trendLine of
        None \<Rightarrow> False
      | Some t \<Rightarrow>
          t \<noteq> NaN \<and> fgt (rdiv fp (fabs (rsub fp currentPrice t)) t) (Num threshold))"

definition clause_near_bound :: "fpu \<Rightarrow> fval \<Rightarrow> fval option \<Rightarrow> fval option \<Rightarrow> bool" where
  "clause_near_bound fp currentPrice support resistance =
     (case support of
        None \<Rightarrow> False
      | Some s \<Rightarrow>
          (case resistance of
             None \<Rightarrow> False
           | Some r \<Rightarrow>
               s \<noteq> NaN \<and> r \<noteq> NaN \<and>
               (flt (fabs (rsub fp currentPrice s))
                    (rmul fp (rsub fp r s) (Num double_0_02)) \<or>
                flt (fabs (rsub fp currentPrice r))
                    (rmul fp (rsub fp r s) (Num double_0_02)))))"

definition clause_rsi_extreme :: "fval option \<Rightarrow> bool" where
  "clause_rsi_extreme rsi =
     (case rsi of None \<Rightarrow> False | Some v \<Rightarrow> fge v (Num 70) \<or> fle v (Num 30))"

definition clause_volume_spike :: "fpu \<Rightarrow> real list \<Rightarrow> bool" where
  "clause_volume_spike fp volumes =
     (20 \<le> length volumes \<and>
      fgt (Num (last volumes)) (rmul fp (Num (fp_rolling_mean fp 20 volumes)) (Num 2)))"

definition clause_fake_breakout :: "frame \<Rightarrow> bool" where
  "clause_fake_breakout df =
     (let bars = f_candles df; n = length bars;
          res = f_resistance df; sup = f_support df
      in 3 \<le> n \<and> 3 \<le> length res \<and>
         (up_fake (bars ! (n - 3)) (bars ! (n - 2)) (bars ! (n - 1))
            (res ! (length res - 3)) \<or>
          3 \<le> length sup \<and>
          down_fake (bars ! (n - 3)) (bars ! (n - 2)) (bars ! (n - 1))
            (sup ! (length sup - 3))))"

text \<open>
  The first two clauses with the further condition that the trend line, respectively the
  support and the resistance, is not zero.
\<close>

definition clause_trend_deviation_nonzero ::
  "fpu \<Rightarrow> real \<Rightarrow> fval \<Rightarrow> fval option \<Rightarrow> bool" where
  "clause_trend_deviation_nonzero fp threshold currentPrice trendLine =
     (trendLine \<noteq> Some (Num 0) \<and>
      clause_trend_deviation fp threshold currentPrice trendLine)"

definition clause_near_bound_nonzero ::
  "fpu \<Rightarrow> fval \<Rightarrow> fval option \<Rightarrow> fval option \<Rightarrow> bool" where
  "clause_near_bound_nonzero fp currentPrice support resistance =
     (support \<noteq> Some (Num 0) \<and> resistance \<noteq> Some (Num 0) \<and>
      clause_near_bound fp currentPrice support resistance)"

text \<open>
  The gains and losses of a close series (both zero at the first position, where there is
  no previous close), their simple averages over the last \<open>p\<close> positions, and the RSI
  that the arithmetic of the analyzer yields from the two averages.
\<close>

definition gains :: "real list \<Rightarrow> real list" where
  "gains cl = map (\<lambda>i. if 0 < i \<and> cl ! (i - 1) < cl ! i then cl ! i - cl ! (i - 1) else 0)
                  [0..<length cl]"

definition losses :: "real list \<Rightarrow> real list" where
  "losses cl = map (\<lambda>i. if 0 < i \<and> cl ! i < cl ! (i - 1) then cl ! (i - 1) - cl ! i else 0)
                   [0..<length cl]"

definition avg_gain :: "nat \<Rightarrow> real list \<Rightarrow> nat \<Rightarrow> real" where
  "avg_gain p cl i = sum_list (window p i (gains cl)) / real p"

definition avg_loss :: "nat \<Rightarrow> real list \<Rightarrow> nat \<Rightarrow> real" where
  "avg_loss p cl i = sum_list (window p i (losses cl)) / real p"

definition rsi_of :: "real \<Rightarrow> real \<Rightarrow> fval" where
  "rsi_of g l =
     (if l = 0 then (if g = 0 then NaN else Num 100)
      else Num (100 - 100 / (1 + g / l)))"

definition rsi_in_range :: "fval \<Rightarrow> bool" where
  "rsi_in_range x = (case x of Num v \<Rightarrow> 0 \<le> v \<and> v \<le> 100 | NaN \<Rightarrow> True | _ \<Rightarrow> False)"

text \<open>
  The value written at one position of the breakout series, from the close, the previous
  close and the previous resistance and support: the down-break is written last.
\<close>

definition break_event :: "fpu \<Rightarrow> real \<Rightarrow> fval \<Rightarrow> fval \<Rightarrow> fval \<Rightarrow> fval \<Rightarrow> fval" where
  "break_event fp threshold c c_prev r_prev s_prev =
     (if flt c (rmul fp s_prev (rsub fp (Num 1) (Num threshold))) \<and> fge c_prev s_prev
      then Num (- 1)
      else if fgt c (rmul fp r_prev (radd fp (Num 1) (Num threshold))) \<and> fle c_prev r_prev
      then Num 1
      else NaN)"

text \<open>
  The up-break and down-break conditions of the specification on numbers, with the product
  and the sum or difference rounded as the floating-point unit rounds them.
\<close>

definition up_break :: "fpu \<Rightarrow> real \<Rightarrow> real \<Rightarrow> real \<Rightarrow> real \<Rightarrow> bool" where
  "up_break fp threshold close_t close_prev resistance_prev =
     (fp_round fp (resistance_prev * fp_round fp (1 + threshold)) < close_t \<and>
      close_prev \<le> resistance_prev)"

definition down_break :: "fpu \<Rightarrow> real \<Rightarrow> real \<Rightarrow> real \<Rightarrow> real \<Rightarrow> bool" where
  "down_break fp threshold close_t close_prev support_prev =
     (close_t < fp_round fp (support_prev * fp_round fp (1 - threshold)) \<and>
      support_prev \<le> close_prev)"

text \<open>
The number of leading entries of a series that are missing.
\<close>

definition undefined_prefix :: "fval list \<Rightarrow> nat" where
  "undefined_prefix xs = length (takeWhile (\<lambda>v. v = NaN) xs)"

text \<open>
  For a sequence of \<open>add_alert\<close> calls: the id and the alert of a call, the alerts
  that the run appends to the ledger (those whose id is not in the set of seen ids when
  the call is made), and the calls that bring an id for the first time.
\<close>

definition call_id :: "int \<times> string \<times> 'i \<Rightarrow> 'i" where
  "call_id c = snd (snd c)"

definition alert_of :: "int \<times> string \<times> 'i \<Rightarrow> 'i alert" where
  "alert_of c = \<lparr> message = fst (snd c), timestamp = fst c, a_id = snd (snd c) \<rparr>"

fun accepted :: "'i agent \<Rightarrow> (int \<times> string \<times> 'i) list \<Rightarrow> 'i alert list" where
  "accepted s [] = []"
| "accepted s ((now, msg, alert_id) # calls) =
     (if alert_id |\<in>| processed_alerts s then []
      else [\<lparr> message = msg, timestamp = now, a_id = alert_id \<rparr>])
     @ accepted (add_alert s now msg alert_id) calls"

fun first_seen :: "'i list \<Rightarrow> (int \<times> string \<times> 'i) list \<Rightarrow> (int \<times> string \<times> 'i) list" where
  "first_seen seen [] = []"
| "first_seen seen (c # calls) =
     (if call_id c \<in> set seen then first_seen seen calls
      else c # first_seen (call_id c # seen) calls)"

text \<open>
  The ledger holds at most five alerts, their ids are pairwise different, and each of
  them is in the set of seen ids.
\<close>

definition ledger_inv :: "'i agent \<Rightarrow> bool" where
  "ledger_inv s =
     (length (alerts s) \<le> 5 \<and> distinct (map a_id (alerts s)) \<and>
      fset_of_list (map a_id (alerts s)) |\<subseteq>| processed_alerts s)"

section \<open>Sample data\<close>

text \<open>
  The floating-point unit that does not round and takes the rolling mean as the sum of
  the window divided by its length; the worked examples are evaluated with it.
\<close>

definition exact_unit :: fpu where
  "exact_unit =
     \<lparr> fp_round = (\<lambda>x. x),
       fp_rolling_mean = (\<lambda>p xs. sum_list (tail p xs) / real p) \<rparr>"

text \<open>
A candle with the given high, low, close and volume, for the worked examples.
\<close>

definition candle_of :: "real \<Rightarrow> real \<Rightarrow> real \<Rightarrow> real \<Rightarrow> candle" where
  "candle_of hi lo cl vol =
     \<lparr> c_timestamp = 0, c_open = cl, c_high = hi, c_low = lo, c_close = cl, c_volume = vol \<rparr>"

definition breakout_series :: "candle list" where
  "breakout_series = replicate 20 (candle_of 110 90 100 1000) @ [candle_of 125 100 120 1000]"

definition negative_series :: "candle list" where
  "negative_series = replicate 21 (candle_of (- 100) (- 100) (- 100) 1000)"

definition flat_series :: "candle list" where
  "flat_series = replicate 14 (candle_of 110 90 100 1000)"

definition swing_series :: "candle list" where
  "swing_series =
     replicate 12 (candle_of 110 90 100 1000) @
     [candle_of 110 90 90 1000, candle_of 110 90 100 1000]"

definition fake_up_frame :: frame where
  "fake_up_frame =
     \<lparr> f_candles = [candle_of 105 95 100 1000, candle_of 104 101 103 1000,
                     candle_of 103 97 98 1000],
       f_MA = [],
       f_trend_line = [NaN, NaN, NaN],
       f_support = [Num 90, Num 90, Num 90],
       f_resistance = [Num 102, Num 102, Num 102],
       f_BB_middle = [NaN, NaN, NaN],
       f_BB_upper = [NaN, NaN, NaN],
       f_BB_lower = [NaN, NaN, NaN],
       f_RSI = [NaN, NaN, NaN],
       f_trend_break = [NaN, NaN, NaN] \<rparr>"

definition quiet_frame :: frame where
  "quiet_frame =
     \<lparr> f_candles = [candle_of 101 99 100 1000, candle_of 101 99 100 1000,
                     candle_of 101 99 100 1000],
       f_MA = [],
       f_trend_line = [Num 100, Num 100, Num 100],
       f_support = [Num 90, Num 90, Num 90],
       f_resistance = [Num 110, Num 110, Num 110],
       f_BB_middle = [NaN, NaN, NaN],
       f_BB_upper = [NaN, NaN, NaN],
       f_BB_lower = [NaN, NaN, NaN],
       f_RSI = [NaN, NaN, Num 71],
       f_trend_break = [NaN, NaN, NaN] \<rparr>"

text \<open>
  A world whose clock reads 1700000000000 ms and whose exchange answers every request
  with no rows.
\<close>

definition sample_env :: env where
  "sample_env =
     \<lparr> start_time_of = (\<lambda>d. Inr (1700000000000 - d * 86400000)),
       get_historical_klines = (\<lambda>symbol interval start. Inr []),
       ai_analysis = (\<lambda>symbol td df. None),
       basic_analysis = (\<lambda>td. ''basic''),
       exn_text = (\<lambda>e. ''error''),
       float_unit = exact_unit \<rparr>"

definition six_calls :: "(int \<times> string \<times> string) list" where
  "six_calls =
     [(1, ''first'', ''a1''), (2, ''second'', ''a2''), (3, ''third'', ''a3''),
      (4, ''fourth'', ''a4''), (5, ''fifth'', ''a5''), (6, ''sixth'', ''a6'')]"

text \<open>
1001 calls with the ids 0 to 1000.
\<close>

definition many_calls :: "(int \<times> string \<times> nat) list" where
  "many_calls = map (\<lambda>n. (int n, ''alert'', n)) [0..<1001]"

section \<open>Facts about floats, indexing and rolling windows\<close>

lemma NaN_right [simp]:
  "fadd x NaN = NaN" "fsub x NaN = NaN" "fmul x NaN = NaN" "fdiv x NaN = NaN"
  "flt x NaN = False" "fle x NaN = False" "fgt NaN x = False" "fge NaN x = False"
  by (cases x; simp add: fsub_def fgt_def fge_def)+

lemma NaN_left [simp]:
  "fsub NaN x = NaN" "fgt x NaN = False" "fge x NaN = False"
  by (simp_all add: fsub_def fgt_def fge_def)

lemma NaN_rounded [simp]:
  "radd fp x NaN = NaN" "rsub fp x NaN = NaN" "rmul fp x NaN = NaN" "rdiv fp x NaN = NaN"
  "radd fp NaN x = NaN" "rsub fp NaN x = NaN" "rmul fp NaN x = NaN" "rdiv fp NaN x = NaN"
  by (simp_all add: radd_def rsub_def rmul_def rdiv_def)

lemma exact_unit_simps [simp]:
  "fp_round exact_unit x = x"
  "fp_rolling_mean exact_unit p xs = sum_list (tail p xs) / real p"
  by (simp_all add: exact_unit_def)

lemma rnd_exact [simp]: "rnd exact_unit v = v"
  by (cases v) simp_all

lemma mono_exact_unit: "mono (fp_round exact_unit)"
  by (simp add: mono_def)

lemma fmul_comm: "fmul a b = fmul b a"
  by (cases a; cases b) (auto simp: mult.commute)

lemma iloc_neg:
  assumes "0 < k" and "k \<le> length xs"
  shows "iloc xs (- int k) = Inr (xs ! (length xs - k))"
proof -
  have "nat (int (length xs) - int k) = length xs - k" by simp
  with assms show ?thesis by (auto simp: iloc_def Let_def)
qed

lemma iloc_neg_short:
  assumes "length xs < k"
  shows "iloc xs (- int k) = Inl IndexError"
  using assms by (auto simp: iloc_def Let_def)

lemma iloc_last:
  assumes "xs \<noteq> []"
  shows "iloc xs (- 1) = Inr (last xs)"
proof -
  from assms have "0 < length xs" by simp
  then have "nat (int (length xs) - 1) = length xs - 1" by simp
  with assms show ?thesis by (auto simp: iloc_def Let_def last_conv_nth)
qed

lemma tail_nth:
  assumes "k \<le> length xs" and "j < k"
  shows "tail k xs ! j = xs ! (length xs - k + j)"
  using assms by (simp add: tail_def)

lemma tail_short: "length xs \<le> k \<Longrightarrow> tail k xs = xs"
  by (simp add: tail_def)

lemma length_tail: "length (tail k xs) = min k (length xs)"
  by (simp add: tail_def)

lemma tail_tail_append: "tail k (tail k xs @ ys) = tail k (xs @ ys)"
proof (cases "length xs \<le> k")
  case True
  then show ?thesis by (simp add: tail_short)
next
  case False
  then show ?thesis by (cases "length ys \<le> k") (simp_all add: tail_def add.commute)
qed

lemma map_tail: "map f (tail k xs) = tail k (map f xs)"
  by (simp add: tail_def drop_map)

lemma tail_subseq: "subseq (tail k xs) xs"
  unfolding tail_def using suffix_drop by (rule suffix_imp_subseq)

lemma candle_of_simps [simp]:
  "c_high (candle_of hi lo cl vol) = hi" "c_low (candle_of hi lo cl vol) = lo"
  "c_close (candle_of hi lo cl vol) = cl" "c_volume (candle_of hi lo cl vol) = vol"
  by (simp_all add: candle_of_def)

lemma sample_env_simps [simp]:
  "start_time_of sample_env d = Inr (1700000000000 - d * 86400000)"
  "get_historical_klines sample_env symbol interval start = Inr []"
  by (simp_all add: sample_env_def)

lemma reals_of_map_Num: "reals_of (map Num rs) = Some rs"
  by (induction rs) simp_all

lemma window_map: "window p i (map f xs) = map f (window p i xs)"
  by (simp add: window_def take_map drop_map)

lemma length_window: "i < length xs \<Longrightarrow> length (window p i xs) = min (Suc i) p"
  by (auto simp: window_def min_def)

lemma length_rolling: "length (rolling agg p xs) = length xs"
  by (simp add: rolling_def)

lemma rolling_nth:
  assumes "i < length rs"
  shows "rolling agg p (map Num rs) ! i =
           (if Suc i < p then NaN else agg (window p i rs))"
proof -
  have len: "length (window p i (map Num rs)) = min (Suc i) p"
    using assms by (simp add: length_window)
  have "rolling agg p (map Num rs) ! i =
          (let w = window p i (map Num rs)
           in if length w < p then NaN
              else (case reals_of w of None \<Rightarrow> NaN | Some q \<Rightarrow> agg q))"
    using assms by (simp add: rolling_def)
  also have "\<dots> = (if Suc i < p then NaN else agg (window p i rs))"
    using len by (auto simp: Let_def window_map reals_of_map_Num min_def)
  finally show ?thesis .
qed

lemma window_nonempty: "i < length xs \<Longrightarrow> 0 < p \<Longrightarrow> window p i xs \<noteq> []"
  using length_window [of i xs p] by (auto simp: min_def split: if_splits)

lemma set_window_subset: "set (window p i xs) \<subseteq> set xs"
  unfolding window_def by (meson set_drop_subset set_take_subset subset_trans)

lemma last_window: "i < length xs \<Longrightarrow> 0 < p \<Longrightarrow> last (window p i xs) = xs ! i"
  by (simp add: window_def last_drop last_conv_nth take_Suc_conv_app_nth)

lemma nth_in_window: "i < length xs \<Longrightarrow> 0 < p \<Longrightarrow> xs ! i \<in> set (window p i xs)"
  using last_window [of i xs p] window_nonempty [of i xs p] last_in_set by metis

lemma window_index:
  assumes "i < length xs" and "k < length (window p i xs)"
  shows "window p i xs ! k = xs ! (Suc i - p + k)"
  using assms by (simp add: window_def)

lemma window_replicate:
  assumes "i < n"
  shows "window p i (replicate n v) = replicate (min (Suc i) p) v"
proof -
  from assms have "min (Suc i) n - (Suc i - p) = min (Suc i) p" by (auto simp: min_def)
  then show ?thesis by (simp only: window_def take_replicate drop_replicate)
qed

lemma window_last_full:
  assumes "p \<le> length xs" and "0 < p"
  shows "window p (length xs - 1) xs = tail p xs"
  using assms by (simp add: window_def tail_def)

lemma length_rolling_mean_fp: "length (rolling_mean_fp fp p xs) = length xs"
  by (simp add: rolling_mean_fp_def)

lemma rolling_mean_fp_last:
  assumes "xs \<noteq> []"
  shows "rolling_mean_fp fp 20 xs ! (length xs - 1) =
           (if length xs < 20 then NaN else Num (fp_rolling_mean fp 20 xs))"
proof -
  from assms have pos: "0 < length xs" by simp
  then have "Suc (length xs - 1) = length xs" by simp
  then show ?thesis using pos by (auto simp: rolling_mean_fp_def)
qed

lemma column_eq: "column f cs = map Num (map f cs)"
  by (simp add: column_def)

lemma length_column: "length (column f cs) = length cs"
  by (simp add: column_def)

lemma rolling_column_nth:
  assumes "i < length cs"
  shows "rolling agg p (column f cs) ! i =
           (if Suc i < p then NaN else agg (window p i (map f cs)))"
proof -
  have "i < length (map f cs)" using assms by simp
  then show ?thesis unfolding column_eq by (rule rolling_nth)
qed

lemma rolling_all_NaN:
  assumes "length cs < p"
  shows "rolling agg p (column f cs) = replicate (length cs) NaN"
  using assms
  by (intro nth_equalityI) (simp_all add: length_rolling length_column rolling_column_nth)

lemma mean_agg_window:
  assumes "i < length xs" and "0 < p" and "\<not> Suc i < p"
  shows "mean_agg (window p i xs) = Num (sum_list (window p i xs) / real p)"
proof -
  have "length (window p i xs) = p" using assms by (simp add: length_window min_def)
  moreover from this assms(2) have "window p i xs \<noteq> []" by auto
  ultimately show ?thesis by (simp add: mean_agg_def)
qed

lemma std_agg_window:
  assumes "i < length xs" and "2 \<le> p" and "\<not> Suc i < p"
  shows "\<exists>v. std_agg (window p i xs) = Num v"
proof -
  have "length (window p i xs) = p" using assms by (simp add: length_window min_def)
  with assms(2) show ?thesis by (simp add: std_agg_def Let_def)
qed

lemma rolling_mean_NaN_iff:
  assumes "i < length cs" and "0 < p"
  shows "(rolling mean_agg p (column f cs) ! i = NaN) = (Suc i < p)"
  using assms mean_agg_window [of i "map f cs" p]
  by (simp add: rolling_column_nth)

lemma support_nth:
  "i < length cs \<Longrightarrow> fst (calculate_support_resistance cfg cs) ! i =
     (if Suc i < MA_default_period cfg then NaN
      else min_agg (window (MA_default_period cfg) i (map c_low cs)))"
  by (simp add: calculate_support_resistance_def Let_def rolling_column_nth)

lemma resistance_nth:
  "i < length cs \<Longrightarrow> snd (calculate_support_resistance cfg cs) ! i =
     (if Suc i < MA_default_period cfg then NaN
      else max_agg (window (MA_default_period cfg) i (map c_high cs)))"
  by (simp add: calculate_support_resistance_def Let_def rolling_column_nth)

lemma length_support_resistance:
  "length (fst (calculate_support_resistance cfg cs)) = length cs"
  "length (snd (calculate_support_resistance cfg cs)) = length cs"
  by (simp_all add: calculate_support_resistance_def Let_def length_rolling length_column)

lemma Config_simps:
  "MA_default_period Config = 20" "RSI_period Config = 14" "Bollinger_period Config = 20"
  "Bollinger_std_dev Config = 2" "TREND_min_points Config = 5"
  "TREND_breakout_threshold Config = double_0_02"
  "MA_periods Config = [5, 10, 20, 50, 100, 200]"
  "ANALYSIS_default_days Config = 30" "ANALYSIS_max_days Config = 365"
  "TIMEFRAMES_default Config = ''1d''"
  "SYMBOLS_TO_MONITOR Config = [''BTCUSDT'', ''ETHUSDT'', ''SOLUSDT'']"
  by (simp_all add: Config_def)

lemma length_shift1: "length (shift1 xs) = length xs"
  by (simp add: shift1_def)

lemma shift1_nth:
  assumes "i < length xs"
  shows "shift1 xs ! i = (if i = 0 then NaN else xs ! (i - 1))"
proof (cases i)
  case 0
  with assms show ?thesis by (auto simp: shift1_def)
next
  case (Suc j)
  with assms have "j < length (butlast xs)" by simp
  then have "butlast xs ! j = xs ! j" by (rule nth_butlast)
  with Suc assms show ?thesis by (auto simp: shift1_def)
qed

lemma length_diff: "length (diff xs) = length xs"
  by (simp add: diff_def length_shift1)

lemma diff_nth:
  assumes "i < length cl"
  shows "diff (map Num cl) ! i = (if i = 0 then NaN else Num (cl ! i - cl ! (i - 1)))"
  using assms by (simp add: diff_def length_shift1 shift1_nth fsub_def)

lemma length_where_series:
  "length cond = length xs \<Longrightarrow> length (where_series xs cond other) = length xs"
  by (simp add: where_series_def)

lemma length_mask_assign:
  "length sel = length xs \<Longrightarrow> length (mask_assign xs sel v) = length xs"
  by (simp add: mask_assign_def)

lemma undefined_prefix_rolling:
  assumes def: "\<And>i. i < length xs \<Longrightarrow> (xs ! i = NaN) = (Suc i < p)" and p: "0 < p"
  shows "undefined_prefix xs = min (p - 1) (length xs)"
proof -
  let ?k = "min (p - 1) (length xs)"
  have "takeWhile (\<lambda>v. v = NaN) xs = take ?k xs"
  proof (rule takeWhile_eq_take_P_nth)
    fix i assume "i < ?k" and "i < length xs"
    then show "xs ! i = NaN" using def [of i] by simp
  next
    assume "?k < length xs"
    then have "?k = p - 1" and "p - 1 < length xs" by (simp_all add: min_def split: if_splits)
    then show "\<not> xs ! ?k = NaN" using def [of "p - 1"] p by simp
  qed
  then show ?thesis by (simp add: undefined_prefix_def)
qed

lemma undefined_prefix_column:
  assumes "length xs = n" and "\<And>i. i < n \<Longrightarrow> (xs ! i = NaN) = (Suc i < p)" and "0 < p"
  shows "undefined_prefix xs = min (p - 1) n"
  using undefined_prefix_rolling [of xs p] assms by auto

lemma undefined_prefix_MA:
  assumes "0 < p"
  shows "undefined_prefix (rolling mean_agg p (column f cs)) = min (p - 1) (length cs)"
  using undefined_prefix_rolling [of "rolling mean_agg p (column f cs)" p] assms
  by (simp add: length_rolling length_column rolling_mean_NaN_iff)

lemma undefined_prefix_ge:
  assumes "length xs = n" and "\<And>i. i < n \<Longrightarrow> Suc i < p \<Longrightarrow> xs ! i = NaN"
  shows "min (p - 1) n \<le> undefined_prefix xs"
  unfolding undefined_prefix_def
  using assms by (intro length_takeWhile_less_P_nth) auto

section \<open>Facts about the indicator engine\<close>

lemma frame_fields:
  "f_candles (calculate_technical_indicators fp cfg cs) = cs"
  "f_support (calculate_technical_indicators fp cfg cs) = fst (calculate_support_resistance cfg cs)"
  "f_resistance (calculate_technical_indicators fp cfg cs) = snd (calculate_support_resistance cfg cs)"
  "f_RSI (calculate_technical_indicators fp cfg cs) = rsi_series (RSI_period cfg) (column c_close cs)"
  "f_BB_middle (calculate_technical_indicators fp cfg cs) =
     rolling mean_agg (Bollinger_period cfg) (column c_close cs)"
  "f_trend_line (calculate_technical_indicators fp cfg cs) = calculate_trend_line cfg (map c_close cs)"
  "f_MA (calculate_technical_indicators fp cfg cs) =
     map (\<lambda>period. (period, rolling mean_agg period (column c_close cs))) (MA_periods cfg)"
  by (simp_all add: calculate_technical_indicators_def Let_def)

lemma length_calculate_trend_line: "length (calculate_trend_line cfg prices) = length prices"
  by (simp add: calculate_trend_line_def Let_def)

lemma trend_line_nth_NaN:
  assumes "i < length prices"
  shows "(calculate_trend_line cfg prices ! i = NaN) = (length prices < TREND_min_points cfg)"
  using assms by (simp add: calculate_trend_line_def Let_def)

lemma map_of_periods:
  "map_of (map (\<lambda>q. (q, f q)) ps) p = (if p \<in> set ps then Some (f p) else None)"
  by (induction ps) auto

lemma gain_raw_eq:
  "where_series (diff (map Num cl)) (map (\<lambda>d. fgt d (Num 0)) (diff (map Num cl))) (Num 0)
     = map Num (gains cl)"
  by (rule nth_equalityI)
     (auto simp: where_series_def length_diff gains_def diff_nth fgt_def)

lemma loss_raw_eq:
  "map fneg (where_series (diff (map Num cl)) (map (\<lambda>d. flt d (Num 0)) (diff (map Num cl)))
       (Num 0))
     = map Num (losses cl)"
  by (rule nth_equalityI)
     (auto simp: where_series_def length_diff losses_def diff_nth)

lemma length_gains: "length (gains cl) = length cl" and length_losses: "length (losses cl) = length cl"
  by (simp_all add: gains_def losses_def)

lemma rsi_gain_nth:
  assumes "i < length cl" and "0 < p"
  shows "rsi_gain p (map Num cl) ! i = (if Suc i < p then NaN else Num (avg_gain p cl i))"
proof -
  have "rsi_gain p (map Num cl) ! i = rolling mean_agg p (map Num (gains cl)) ! i"
    by (simp add: rsi_gain_def Let_def gain_raw_eq)
  also have "\<dots> = (if Suc i < p then NaN else mean_agg (window p i (gains cl)))"
    using assms by (intro rolling_nth) (simp add: length_gains)
  finally show ?thesis
    using assms mean_agg_window [of i "gains cl" p] by (simp add: avg_gain_def length_gains)
qed

lemma rsi_loss_nth:
  assumes "i < length cl" and "0 < p"
  shows "rsi_loss p (map Num cl) ! i = (if Suc i < p then NaN else Num (avg_loss p cl i))"
proof -
  have "rsi_loss p (map Num cl) ! i = rolling mean_agg p (map Num (losses cl)) ! i"
    by (simp add: rsi_loss_def Let_def loss_raw_eq)
  also have "\<dots> = (if Suc i < p then NaN else mean_agg (window p i (losses cl)))"
    using assms by (intro rolling_nth) (simp add: length_losses)
  finally show ?thesis
    using assms mean_agg_window [of i "losses cl" p] by (simp add: avg_loss_def length_losses)
qed

lemma length_rsi_gain: "length (rsi_gain p xs) = length xs"
  by (simp add: rsi_gain_def Let_def length_rolling length_where_series length_diff)

lemma length_rsi_loss: "length (rsi_loss p xs) = length xs"
  by (simp add: rsi_loss_def Let_def length_rolling length_where_series length_diff)

lemma length_rsi_series: "length (rsi_series p xs) = length xs"
  by (simp add: rsi_series_def Let_def length_rsi_gain length_rsi_loss)

lemma sum_list_nonneg_set: "(\<And>x. x \<in> set xs \<Longrightarrow> (0::real) \<le> x) \<Longrightarrow> 0 \<le> sum_list xs"
  by (induction xs) auto

lemma avg_gain_nonneg: "0 \<le> avg_gain p cl i"
proof -
  have "\<And>x. x \<in> set (window p i (gains cl)) \<Longrightarrow> 0 \<le> x"
    using set_window_subset [of p i "gains cl"] by (auto simp: gains_def)
  then have "0 \<le> sum_list (window p i (gains cl))" by (rule sum_list_nonneg_set)
  then show ?thesis by (simp add: avg_gain_def)
qed

lemma avg_loss_nonneg: "0 \<le> avg_loss p cl i"
proof -
  have "\<And>x. x \<in> set (window p i (losses cl)) \<Longrightarrow> 0 \<le> x"
    using set_window_subset [of p i "losses cl"] by (auto simp: losses_def)
  then have "0 \<le> sum_list (window p i (losses cl))" by (rule sum_list_nonneg_set)
  then show ?thesis by (simp add: avg_loss_def)
qed

lemma rsi_formula:
  assumes "0 \<le> g" and "0 \<le> l"
  shows "fsub (Num 100) (fdiv (Num 100) (fadd (Num 1) (fdiv (Num g) (Num l)))) = rsi_of g l"
proof (cases "l = 0")
  case True
  with assms show ?thesis by (auto simp: rsi_of_def fsub_def)
next
  case False
  with assms have "0 < 1 + g / l" by (simp add: add_pos_nonneg)
  with False show ?thesis by (auto simp: rsi_of_def fsub_def)
qed

lemma rsi_series_nth:
  assumes "i < length cl" and "0 < p"
  shows "rsi_series p (map Num cl) ! i =
           (if Suc i < p then NaN else rsi_of (avg_gain p cl i) (avg_loss p cl i))"
proof -
  have "rsi_series p (map Num cl) ! i =
          fsub (Num 100) (fdiv (Num 100) (fadd (Num 1)
            (fdiv (rsi_gain p (map Num cl) ! i) (rsi_loss p (map Num cl) ! i))))"
    using assms by (simp add: rsi_series_def Let_def length_rsi_gain length_rsi_loss)
  then show ?thesis
    using assms rsi_formula [OF avg_gain_nonneg avg_loss_nonneg, of p cl i p cl i]
    by (simp add: rsi_gain_nth rsi_loss_nth fsub_def)
qed

lemma rsi_of_range:
  assumes "0 \<le> g" and "0 \<le> l" and "rsi_of g l = Num v"
  shows "0 \<le> v \<and> v \<le> 100"
proof (cases "l = 0")
  case True
  with assms show ?thesis by (auto simp: rsi_of_def split: if_splits)
next
  case False
  with assms have l: "0 < l" by simp
  have q: "0 \<le> g / l" using assms l by simp
  then have one: "1 \<le> 1 + g / l" by simp
  then have "100 / (1 + g / l) \<le> 100 / 1"
    by (intro divide_left_mono) auto
  moreover have "0 \<le> 100 / (1 + g / l)" using one by simp
  moreover have "v = 100 - 100 / (1 + g / l)" using assms False by (simp add: rsi_of_def)
  ultimately show ?thesis by simp
qed

lemma rsi_of_in_range:
  assumes "0 \<le> g" and "0 \<le> l"
  shows "rsi_in_range (rsi_of g l)"
proof (cases "rsi_of g l")
  case (Num v)
  with rsi_of_range [OF assms] show ?thesis by (simp add: rsi_in_range_def)
qed (auto simp: rsi_in_range_def rsi_of_def split: if_splits)

lemma rsi_gain_loss_NaN_iff:
  assumes "i < length cs" and "0 < p"
  shows "(rsi_gain p (column f cs) ! i = NaN) = (Suc i < p)"
    and "(rsi_loss p (column f cs) ! i = NaN) = (Suc i < p)"
proof -
  have g: "rsi_gain p (column f cs) ! i =
             (if Suc i < p then NaN else Num (avg_gain p (map f cs) i))"
    unfolding column_eq using assms by (intro rsi_gain_nth) simp_all
  have l: "rsi_loss p (column f cs) ! i =
             (if Suc i < p then NaN else Num (avg_loss p (map f cs) i))"
    unfolding column_eq using assms by (intro rsi_loss_nth) simp_all
  show "(rsi_gain p (column f cs) ! i = NaN) = (Suc i < p)" unfolding g by simp
  show "(rsi_loss p (column f cs) ! i = NaN) = (Suc i < p)" unfolding l by simp
qed

lemma rsi_NaN_iff:
  assumes "i < length cs" and "0 < p"
  shows "(rsi_series p (column f cs) ! i = NaN) =
           (Suc i < p \<or> (avg_gain p (map f cs) i = 0 \<and> avg_loss p (map f cs) i = 0))"
proof -
  have "rsi_series p (column f cs) ! i =
          (if Suc i < p then NaN
           else rsi_of (avg_gain p (map f cs) i) (avg_loss p (map f cs) i))"
    unfolding column_eq using assms by (intro rsi_series_nth) simp_all
  then show ?thesis by (auto simp: rsi_of_def)
qed

lemma gains_replicate: "gains (replicate n v) = replicate n 0"
  by (rule nth_equalityI) (simp_all add: gains_def)

lemma losses_replicate: "losses (replicate n v) = replicate n 0"
  by (rule nth_equalityI) (simp_all add: losses_def)

lemma swing_closes:
  "map c_close swing_series =
     [100, 100, 100, 100, 100, 100, 100, 100, 100, 100, 100, 100, 90, 100]"
  by (simp add: swing_series_def numeral_eq_Suc)

lemma upt_14: "[0..<14] = [0, 1, 2, 3, 4, 5, 6, 7, 8, 9, 10, 11, 12, 13]"
  by (simp add: upt_rec)

lemma length_bands:
  "length (f_BB_upper (calculate_technical_indicators fp cfg cs)) = length cs"
  "length (f_BB_lower (calculate_technical_indicators fp cfg cs)) = length cs"
  by (simp_all add: calculate_technical_indicators_def Let_def length_rolling length_column)

lemma bands_nth:
  assumes "i < length cs"
  shows "f_BB_upper (calculate_technical_indicators fp cfg cs) ! i =
           fadd (rolling mean_agg (Bollinger_period cfg) (column c_close cs) ! i)
                (fmul (rolling std_agg (Bollinger_period cfg) (column c_close cs) ! i)
                      (Num (Bollinger_std_dev cfg)))"
    and "f_BB_lower (calculate_technical_indicators fp cfg cs) ! i =
           fsub (rolling mean_agg (Bollinger_period cfg) (column c_close cs) ! i)
                (fmul (rolling std_agg (Bollinger_period cfg) (column c_close cs) ! i)
                      (Num (Bollinger_std_dev cfg)))"
  using assms
  by (simp_all add: calculate_technical_indicators_def Let_def length_rolling length_column)

lemma bands_NaN_iff:
  assumes i: "i < length cs" and p: "2 \<le> Bollinger_period cfg"
  shows "(f_BB_upper (calculate_technical_indicators fp cfg cs) ! i = NaN) =
           (Suc i < Bollinger_period cfg)"
    and "(f_BB_lower (calculate_technical_indicators fp cfg cs) ! i = NaN) =
           (Suc i < Bollinger_period cfg)"
proof -
  let ?p = "Bollinger_period cfg"
  have pos: "0 < ?p" using p by simp
  have il: "i < length (map c_close cs)" using i by simp
  show "(f_BB_upper (calculate_technical_indicators fp cfg cs) ! i = NaN) = (Suc i < ?p)"
  proof (cases "Suc i < ?p")
    case True
    then show ?thesis using i by (simp add: bands_nth rolling_column_nth)
  next
    case False
    from std_agg_window [OF il p False] obtain v
      where "std_agg (window ?p i (map c_close cs)) = Num v" by blast
    then show ?thesis
      using i False mean_agg_window [OF il pos False]
      by (simp add: bands_nth rolling_column_nth)
  qed
  show "(f_BB_lower (calculate_technical_indicators fp cfg cs) ! i = NaN) = (Suc i < ?p)"
  proof (cases "Suc i < ?p")
    case True
    then show ?thesis using i by (simp add: bands_nth rolling_column_nth fsub_def)
  next
    case False
    from std_agg_window [OF il p False] obtain v
      where "std_agg (window ?p i (map c_close cs)) = Num v" by blast
    then show ?thesis
      using i False mean_agg_window [OF il pos False]
      by (simp add: bands_nth rolling_column_nth fsub_def)
  qed
qed

lemma support_NaN_iff:
  assumes "i < length cs" and "0 < MA_default_period cfg"
  shows "(f_support (calculate_technical_indicators fp cfg cs) ! i = NaN) =
           (Suc i < MA_default_period cfg)"
    and "(f_resistance (calculate_technical_indicators fp cfg cs) ! i = NaN) =
           (Suc i < MA_default_period cfg)"
  using assms window_nonempty [of i "map c_low cs" "MA_default_period cfg"]
    window_nonempty [of i "map c_high cs" "MA_default_period cfg"]
  by (simp_all add: frame_fields support_nth resistance_nth min_agg_def max_agg_def)

lemma detect_trend_breaks_nth:
  assumes t: "t < length (f_candles df)"
    and lr: "length (f_resistance df) = length (f_candles df)"
    and ls: "length (f_support df) = length (f_candles df)"
  shows "detect_trend_breaks fp cfg df ! t =
           break_event fp (TREND_breakout_threshold cfg)
             (Num (c_close (f_candles df ! t)))
             (shift1 (column c_close (f_candles df)) ! t)
             (shift1 (f_resistance df) ! t)
             (shift1 (f_support df) ! t)"
  using assms
  by (simp add: detect_trend_breaks_def Let_def mask_assign_def length_shift1 length_column
                break_event_def column_def)

lemma length_detect_trend_breaks:
  assumes "length (f_resistance df) = length (f_candles df)"
    and "length (f_support df) = length (f_candles df)"
  shows "length (detect_trend_breaks fp cfg df) = length (f_candles df)"
  using assms
  by (simp add: detect_trend_breaks_def Let_def mask_assign_def length_shift1 length_column)

lemma trend_break_nth:
  assumes "t < length cs"
  shows "f_trend_break (calculate_technical_indicators fp cfg cs) ! t =
           break_event fp (TREND_breakout_threshold cfg)
             (Num (c_close (cs ! t)))
             (shift1 (column c_close cs) ! t)
             (shift1 (snd (calculate_support_resistance cfg cs)) ! t)
             (shift1 (fst (calculate_support_resistance cfg cs)) ! t)"
proof -
  define df0 where "df0 = (calculate_technical_indicators fp cfg cs)\<lparr> f_trend_break := [] \<rparr>"
  have tb: "f_trend_break (calculate_technical_indicators fp cfg cs) =
              detect_trend_breaks fp cfg df0"
    by (simp add: calculate_technical_indicators_def Let_def df0_def)
  have f: "f_candles df0 = cs" "f_resistance df0 = snd (calculate_support_resistance cfg cs)"
    "f_support df0 = fst (calculate_support_resistance cfg cs)"
    by (simp_all add: df0_def frame_fields)
  show ?thesis
    unfolding tb
    using detect_trend_breaks_nth [of t df0 fp cfg] assms
    by (simp add: f length_support_resistance)
qed

lemma trend_break_defined:
  assumes t: "0 < t" "t < length cs"
    and r: "f_resistance (calculate_technical_indicators fp cfg cs) ! (t - 1) = Num r"
    and s: "f_support (calculate_technical_indicators fp cfg cs) ! (t - 1) = Num s"
  shows "f_trend_break (calculate_technical_indicators fp cfg cs) ! t =
           (if down_break fp (TREND_breakout_threshold cfg) (c_close (cs ! t))
                 (c_close (cs ! (t - 1))) s
            then Num (- 1)
            else if up_break fp (TREND_breakout_threshold cfg) (c_close (cs ! t))
                      (c_close (cs ! (t - 1))) r
            then Num 1
            else NaN)"
proof -
  have c1: "shift1 (column c_close cs) ! t = Num (c_close (cs ! (t - 1)))"
    using t by (simp add: shift1_nth length_column column_def)
  have r1: "shift1 (snd (calculate_support_resistance cfg cs)) ! t = Num r"
    using t r by (simp add: shift1_nth length_support_resistance frame_fields)
  have s1: "shift1 (fst (calculate_support_resistance cfg cs)) ! t = Num s"
    using t s by (simp add: shift1_nth length_support_resistance frame_fields)
  show ?thesis
    using t
    by (simp add: trend_break_nth c1 r1 s1 break_event_def fgt_def fge_def
                  up_break_def down_break_def rmul_def radd_def rsub_def fsub_def)
qed

lemma breaks_exclusive:
  assumes mono: "mono (fp_round fp)" and zero: "fp_round fp 0 = 0"
    and th: "0 \<le> threshold" and s0: "0 \<le> s"
  shows "\<not> (up_break fp threshold c c_prev r \<and> down_break fp threshold c c_prev s)"
proof
  assume "up_break fp threshold c c_prev r \<and> down_break fp threshold c c_prev s"
  then have up: "fp_round fp (r * fp_round fp (1 + threshold)) < c" "c_prev \<le> r"
    and dn: "c < fp_round fp (s * fp_round fp (1 - threshold))" "s \<le> c_prev"
    by (simp_all add: up_break_def down_break_def)
  let ?a = "fp_round fp (1 + threshold)" and ?b = "fp_round fp (1 - threshold)"
  have ba: "?b \<le> ?a" using mono th by (intro monoD [of "fp_round fp"]) simp_all
  have "fp_round fp 0 \<le> ?a" using mono th by (intro monoD [of "fp_round fp"]) simp_all
  then have a0: "0 \<le> ?a" using zero by simp
  have sr: "s \<le> r" using up(2) dn(2) by simp
  have "s * ?b \<le> s * ?a" using ba s0 by (rule mult_left_mono)
  also have "\<dots> \<le> r * ?a" using sr a0 by (rule mult_right_mono)
  finally have "s * ?b \<le> r * ?a" .
  with mono have "fp_round fp (s * ?b) \<le> fp_round fp (r * ?a)"
    by (rule monoD)
  with up(1) dn(1) show False by simp
qed

lemma length_trend_break:
  "length (f_trend_break (calculate_technical_indicators fp cfg cs)) = length cs"
proof -
  define df0 where "df0 = (calculate_technical_indicators fp cfg cs)\<lparr> f_trend_break := [] \<rparr>"
  have tb: "f_trend_break (calculate_technical_indicators fp cfg cs) = detect_trend_breaks fp cfg df0"
    by (simp add: calculate_technical_indicators_def Let_def df0_def)
  have "length (detect_trend_breaks fp cfg df0) = length (f_candles df0)"
    by (rule length_detect_trend_breaks)
       (simp_all add: df0_def frame_fields length_support_resistance)
  then show ?thesis by (simp add: tb df0_def frame_fields)
qed

lemma length_MA:
  "list_all (\<lambda>(q, ma). length ma = length cs) (f_MA (calculate_technical_indicators fp cfg cs))"
  by (simp add: frame_fields list_all_iff length_rolling length_column)

lemma aligned_lengths:
  "length (f_trend_line (calculate_technical_indicators fp cfg cs)) = length cs"
  "length (f_support (calculate_technical_indicators fp cfg cs)) = length cs"
  "length (f_resistance (calculate_technical_indicators fp cfg cs)) = length cs"
  "length (f_BB_middle (calculate_technical_indicators fp cfg cs)) = length cs"
  "length (f_RSI (calculate_technical_indicators fp cfg cs)) = length cs"
  by (simp_all add: frame_fields length_calculate_trend_line length_support_resistance
                    length_rolling length_column length_rsi_series)

lemma aligned_MA:
  "list_all (\<lambda>(p, ma). undefined_prefix ma = min (p - 1) (length cs) \<and>
                        (\<forall>i<length cs. (ma ! i = NaN) = (Suc i < p)))
     (f_MA (calculate_technical_indicators fp Config cs))"
proof -
  have "undefined_prefix (rolling mean_agg p (column c_close cs)) = min (p - 1) (length cs) \<and>
        (\<forall>i<length cs. (rolling mean_agg p (column c_close cs) ! i = NaN) = (Suc i < p))"
    if "p \<in> set (MA_periods Config)" for p
  proof -
    from that have ppos: "0 < p" by (auto simp: Config_simps)
    then show ?thesis by (simp add: undefined_prefix_MA rolling_mean_NaN_iff)
  qed
  then show ?thesis by (simp add: frame_fields list_all_iff)
qed

lemma breakout_series_facts:
  "length breakout_series = 21"
  "breakout_series ! 20 = candle_of 125 100 120 1000"
  "breakout_series ! 19 = candle_of 110 90 100 1000"
  "window 20 19 (map c_high breakout_series) = replicate 20 110"
  "window 20 19 (map c_low breakout_series) = replicate 20 90"
  by (simp_all add: breakout_series_def nth_append window_def)

lemma flat_series_RSI:
  "f_RSI (calculate_technical_indicators fp Config flat_series) = replicate 14 NaN"
proof (rule nth_equalityI)
  show "length (f_RSI (calculate_technical_indicators fp Config flat_series)) =
          length (replicate 14 NaN)"
    by (simp add: aligned_lengths flat_series_def)
next
  fix i assume "i < length (f_RSI (calculate_technical_indicators fp Config flat_series))"
  then have i: "i < 14" by (simp add: aligned_lengths flat_series_def)
  then have il: "i < length flat_series" by (simp add: flat_series_def)
  have g: "avg_gain 14 (map c_close flat_series) i = 0"
    using i
    by (simp add: avg_gain_def flat_series_def gains_replicate window_replicate sum_list_replicate)
  have l: "avg_loss 14 (map c_close flat_series) i = 0"
    using i
    by (simp add: avg_loss_def flat_series_def losses_replicate window_replicate sum_list_replicate)
  have "rsi_series 14 (column c_close flat_series) ! i = NaN"
    using rsi_NaN_iff [OF il, of 14 c_close] g l by simp
  then show "f_RSI (calculate_technical_indicators fp Config flat_series) ! i = replicate 14 NaN ! i"
    using i by (simp add: frame_fields Config_simps)
qed

lemma volume_spike_eq:
  "volume_spike fp df = Inr (clause_volume_spike fp (map c_volume (f_candles df)))"
proof (cases "f_candles df = []")
  case True
  then show ?thesis by (simp add: volume_spike_def clause_volume_spike_def)
next
  case False
  let ?v = "map c_volume (f_candles df)"
  from False have ne: "?v \<noteq> []" and pos: "0 < length ?v" by simp_all
  have cur: "iloc ?v (- 1) = Inr (last ?v)" using ne by (rule iloc_last)
  have "rolling_mean_fp fp 20 ?v \<noteq> []"
    using pos length_rolling_mean_fp [of fp 20 ?v] by auto
  then have "iloc (rolling_mean_fp fp 20 ?v) (- 1) = Inr (last (rolling_mean_fp fp 20 ?v))"
    by (rule iloc_last)
  also have "last (rolling_mean_fp fp 20 ?v) = rolling_mean_fp fp 20 ?v ! (length ?v - 1)"
    using pos by (simp add: last_conv_nth length_rolling_mean_fp rolling_mean_fp_def)
  also have "\<dots> = (if length ?v < 20 then NaN else Num (fp_rolling_mean fp 20 ?v))"
    using ne by (rule rolling_mean_fp_last)
  finally have avg: "iloc (rolling_mean_fp fp 20 ?v) (- 1) =
               Inr (if length ?v < 20 then NaN else Num (fp_rolling_mean fp 20 ?v))" .
  show ?thesis
    using ne
    by (simp add: volume_spike_def Let_def cur avg clause_volume_spike_def
             del: One_nat_def)
qed

lemma check_fake_breakout_ignores_trend_break:
  "check_fake_breakout (df\<lparr> f_trend_break := tb \<rparr>) = check_fake_breakout df"
  by (simp add: check_fake_breakout_def check_fake_breakout_body_def Let_def
           cong: sum.case_cong if_cong)

lemma check_fake_breakout_unfold:
  assumes r: "length (f_resistance df) = length (f_candles df)"
    and s: "length (f_support df) = length (f_candles df)"
  shows "check_fake_breakout df =
           (3 \<le> length (f_candles df) \<and>
            (let n = length (f_candles df); bars = f_candles df
             in up_fake (bars ! (n - 3)) (bars ! (n - 2)) (bars ! (n - 1))
                  (f_resistance df ! (n - 3)) \<or>
                down_fake (bars ! (n - 3)) (bars ! (n - 2)) (bars ! (n - 1))
                  (f_support df ! (n - 3))))"
proof (cases "length (f_candles df) < 3")
  case True
  then show ?thesis by (simp add: check_fake_breakout_def check_fake_breakout_body_def)
next
  case False
  let ?n = "length (f_candles df)"
  from False have n3: "3 \<le> ?n" by simp
  have ir: "iloc (f_resistance df) (- 3) = Inr (f_resistance df ! (?n - 3))"
    using iloc_neg [of 3 "f_resistance df"] n3 r by simp
  have isup: "iloc (f_support df) (- 3) = Inr (f_support df ! (?n - 3))"
    using iloc_neg [of 3 "f_support df"] n3 s by simp
  have t0: "tail 3 (f_candles df) ! 0 = f_candles df ! (?n - 3)"
    using tail_nth [of 3 "f_candles df" 0] n3 by simp
  have e1: "?n - 3 + Suc 0 = ?n - 2" and e2: "?n - 3 + 2 = ?n - 1" using n3 by linarith+
  have "tail 3 (f_candles df) ! Suc 0 = f_candles df ! (?n - 3 + Suc 0)"
    using n3 by (intro tail_nth) simp_all
  then have t1: "tail 3 (f_candles df) ! Suc 0 = f_candles df ! (?n - 2)"
    by (simp only: e1)
  have "tail 3 (f_candles df) ! 2 = f_candles df ! (?n - 3 + 2)"
    using n3 by (intro tail_nth) simp_all
  then have t2: "tail 3 (f_candles df) ! 2 = f_candles df ! (?n - 1)" by (simp only: e2)
  show ?thesis
    using n3
    by (auto simp: check_fake_breakout_def check_fake_breakout_body_def Let_def
                   ir isup t0 t1 t2 up_fake_def down_fake_def)
qed

lemma check_fake_breakout_general: "check_fake_breakout df = clause_fake_breakout df"
proof (cases "length (f_candles df) < 3")
  case True
  then show ?thesis
    by (simp add: check_fake_breakout_def check_fake_breakout_body_def
                  clause_fake_breakout_def Let_def)
next
  case n: False
  let ?n = "length (f_candles df)"
  from n have n3: "3 \<le> ?n" by simp
  have t0: "tail 3 (f_candles df) ! 0 = f_candles df ! (?n - 3)"
    using tail_nth [of 3 "f_candles df" 0] n3 by simp
  have e1: "?n - 3 + Suc 0 = ?n - 2" and e2: "?n - 3 + 2 = ?n - 1" using n3 by linarith+
  have "tail 3 (f_candles df) ! Suc 0 = f_candles df ! (?n - 3 + Suc 0)"
    using n3 by (intro tail_nth) simp_all
  then have t1: "tail 3 (f_candles df) ! Suc 0 = f_candles df ! (?n - 2)"
    by (simp only: e1)
  have "tail 3 (f_candles df) ! 2 = f_candles df ! (?n - 3 + 2)"
    using n3 by (intro tail_nth) simp_all
  then have t2: "tail 3 (f_candles df) ! 2 = f_candles df ! (?n - 1)" by (simp only: e2)
  show ?thesis
  proof (cases "length (f_resistance df) < 3")
    case True
    then have "iloc (f_resistance df) (- 3) = Inl IndexError"
      using iloc_neg_short [of "f_resistance df" 3] by simp
    with True n show ?thesis
      by (simp add: check_fake_breakout_def check_fake_breakout_body_def
                    clause_fake_breakout_def Let_def)
  next
    case r: False
    then have ir: "iloc (f_resistance df) (- 3) =
                     Inr (f_resistance df ! (length (f_resistance df) - 3))"
      using iloc_neg [of 3 "f_resistance df"] by simp
    show ?thesis
    proof (cases "length (f_support df) < 3")
      case True
      then have "iloc (f_support df) (- 3) = Inl IndexError"
        using iloc_neg_short [of "f_support df" 3] by simp
      with True n r show ?thesis
        by (auto simp: check_fake_breakout_def check_fake_breakout_body_def
                       clause_fake_breakout_def Let_def ir t0 t1 t2 up_fake_def)
    next
      case s: False
      then have isup: "iloc (f_support df) (- 3) =
                     Inr (f_support df ! (length (f_support df) - 3))"
        using iloc_neg [of 3 "f_support df"] by simp
      from n r s show ?thesis
        by (auto simp: check_fake_breakout_def check_fake_breakout_body_def
                       clause_fake_breakout_def Let_def ir isup t0 t1 t2
                       up_fake_def down_fake_def)
    qed
  qed
qed

lemma is_critical_moment_body_eq:
  "is_critical_moment_body fp cfg df price trend_line support resistance rsi =
     Inr (clause_trend_deviation_nonzero fp (TREND_breakout_threshold cfg) price trend_line \<or>
          clause_near_bound_nonzero fp price support resistance \<or>
          clause_rsi_extreme rsi \<or>
          clause_volume_spike fp (map c_volume (f_candles df)) \<or>
          clause_fake_breakout df)"
proof -
  have t: "(case trend_line of None \<Rightarrow> False
            | Some t \<Rightarrow> truthy trend_line \<and>
                fgt (rdiv fp (fabs (rsub fp price t)) t) (Num (TREND_breakout_threshold cfg))) =
           clause_trend_deviation_nonzero fp (TREND_breakout_threshold cfg) price trend_line"
  proof (cases trend_line)
    case None
    then show ?thesis
      by (simp add: clause_trend_deviation_nonzero_def clause_trend_deviation_def)
  next
    case (Some v)
    then show ?thesis
      by (cases v)
         (auto simp: clause_trend_deviation_nonzero_def clause_trend_deviation_def)
  qed
  have b: "(case support of
              None \<Rightarrow> False
            | Some s \<Rightarrow>
                (case resistance of
                   None \<Rightarrow> False
                 | Some r \<Rightarrow>
                     truthy support \<and> truthy resistance \<and>
                     (flt (fabs (rsub fp price s)) (rmul fp (rsub fp r s) (Num double_0_02)) \<or>
                      flt (fabs (rsub fp price r)) (rmul fp (rsub fp r s) (Num double_0_02)))))
            = clause_near_bound_nonzero fp price support resistance"
  proof (cases support)
    case None
    then show ?thesis by (simp add: clause_near_bound_nonzero_def clause_near_bound_def)
  next
    case s: (Some s)
    show ?thesis
    proof (cases resistance)
      case None
      with s show ?thesis by (simp add: clause_near_bound_nonzero_def clause_near_bound_def)
    next
      case r: (Some r)
      have ts: "truthy (Some s) = (s \<noteq> Num 0)" by (cases s) auto
      have tr: "truthy (Some r) = (r \<noteq> Num 0)" by (cases r) auto
      show ?thesis
        by (cases "s = NaN"; cases "r = NaN")
           (auto simp: s r ts tr clause_near_bound_nonzero_def clause_near_bound_def)
    qed
  qed
  show ?thesis
    unfolding is_critical_moment_body_def Let_def t volume_spike_eq check_fake_breakout_general
    by (simp add: clause_rsi_extreme_def b)
qed

text \<open>
  On a frame computed by the indicator engine the fake-breakout check never fires: its
  reference is the resistance (support) of the third-last position, whose window contains
  the high (low) of that same bar, so the first bar cannot pierce it.
\<close>

lemma fake_breakout_never_on_computed_frame:
  assumes p: "0 < MA_default_period cfg"
  shows "\<not> check_fake_breakout (calculate_technical_indicators fp cfg cs)"
proof (cases "length cs < 3")
  case True
  then show ?thesis
    by (simp add: check_fake_breakout_def check_fake_breakout_body_def frame_fields)
next
  case False
  let ?df = "calculate_technical_indicators fp cfg cs"
  let ?i = "length cs - 3"
  let ?p = "MA_default_period cfg"
  from False have i: "?i < length cs" by simp
  have hi: "c_high (cs ! ?i) \<in> set (window ?p ?i (map c_high cs))"
    using nth_in_window [of ?i "map c_high cs" ?p] i p by simp
  have lo: "c_low (cs ! ?i) \<in> set (window ?p ?i (map c_low cs))"
    using nth_in_window [of ?i "map c_low cs" ?p] i p by simp
  have up: "\<not> fgt (Num (c_high (cs ! ?i))) (f_resistance ?df ! ?i)"
    using i hi by (auto simp: frame_fields resistance_nth max_agg_def fgt_def)
  have dn: "\<not> flt (Num (c_low (cs ! ?i))) (f_support ?df ! ?i)"
    using i lo by (auto simp: frame_fields support_nth min_agg_def)
  have "check_fake_breakout ?df =
          (3 \<le> length (f_candles ?df) \<and>
            (let n = length (f_candles ?df); bars = f_candles ?df
             in up_fake (bars ! (n - 3)) (bars ! (n - 2)) (bars ! (n - 1))
                  (f_resistance ?df ! (n - 3)) \<or>
                down_fake (bars ! (n - 3)) (bars ! (n - 2)) (bars ! (n - 1))
                  (f_support ?df ! (n - 3))))"
    by (rule check_fake_breakout_unfold) (simp_all add: frame_fields length_support_resistance)
  then show ?thesis
    using up dn by (simp add: Let_def frame_fields up_fake_def down_fake_def)
qed

section \<open>Facts about fetching and the alert ledger\<close>

lemma effective_days_le:
  assumes "ANALYSIS_default_days cfg \<le> ANALYSIS_max_days cfg"
  shows "effective_days cfg days \<le> ANALYSIS_max_days cfg"
  using assms by (auto simp: effective_days_def Let_def split: option.splits)

lemma add_alert_seen: "alert_id |\<in>| processed_alerts s \<Longrightarrow> add_alert s now msg alert_id = s"
  by (simp add: add_alert_def)

lemma add_alert_new:
  assumes "alert_id |\<notin>| processed_alerts s"
  shows "alerts (add_alert s now msg alert_id) =
           tail 5 (alerts s @ [\<lparr> message = msg, timestamp = now, a_id = alert_id \<rparr>])"
    and "processed_alerts (add_alert s now msg alert_id) =
           (if 1000 < fcard (finsert alert_id (processed_alerts s))
            then fset_of_list (map a_id (alerts (add_alert s now msg alert_id)))
            else finsert alert_id (processed_alerts s))"
  using assms by (auto simp: add_alert_def Let_def tail_short)

lemma add_alerts_append: "add_alerts s (xs @ ys) = add_alerts (add_alerts s xs) ys"
  by (induction xs arbitrary: s) auto

lemma alerts_add_alerts:
  "length (alerts s) \<le> 5 \<Longrightarrow>
     alerts (add_alerts s calls) = tail 5 (alerts s @ accepted s calls)"
proof (induction calls arbitrary: s)
  case Nil
  then show ?case by (simp add: tail_short)
next
  case (Cons c calls)
  obtain now msg alert_id where c: "c = (now, msg, alert_id)" by (cases c) auto
  show ?case
  proof (cases "alert_id |\<in>| processed_alerts s")
    case True
    with Cons c show ?thesis by (simp add: add_alert_seen)
  next
    case False
    let ?s' = "add_alert s now msg alert_id"
    let ?new = "\<lparr> message = msg, timestamp = now, a_id = alert_id \<rparr>"
    have a: "alerts ?s' = tail 5 (alerts s @ [?new])" using False by (rule add_alert_new)
    then have "length (alerts ?s') \<le> 5" by (simp add: length_tail)
    then have "alerts (add_alerts ?s' calls) = tail 5 (alerts ?s' @ accepted ?s' calls)"
      by (rule Cons.IH)
    also have "\<dots> = tail 5 ((alerts s @ [?new]) @ accepted ?s' calls)"
      unfolding a by (rule tail_tail_append)
    finally show ?thesis using False c by simp
  qed
qed

lemma fcard_fset_of_list: "fcard (fset_of_list xs) = length (remdups xs)"
  by (simp add: fcard.rep_eq fset_of_list.rep_eq length_remdups_card_conv)

lemma accepted_first_seen:
  assumes "fset_of_list seen = processed_alerts s"
    and "fcard (processed_alerts s |\<union>| fset_of_list (map call_id calls)) \<le> 1000"
  shows "accepted s calls = map alert_of (first_seen seen calls) \<and>
         processed_alerts (add_alerts s calls) =
           processed_alerts s |\<union>| fset_of_list (map call_id calls)"
  using assms
proof (induction calls arbitrary: s seen)
  case Nil
  then show ?case by simp
next
  case (Cons c calls)
  obtain now msg alert_id where c: "c = (now, msg, alert_id)" by (cases c) auto
  have mem: "(alert_id \<in> set seen) = (alert_id |\<in>| processed_alerts s)"
    using Cons.prems(1) by (metis fset_of_list_elem)
  show ?case
  proof (cases "alert_id |\<in>| processed_alerts s")
    case True
    then have u: "processed_alerts s |\<union>| fset_of_list (map call_id (c # calls)) =
                  processed_alerts s |\<union>| fset_of_list (map call_id calls)"
      by (auto simp: c call_id_def simp del: fset_of_list_map)
    have "accepted s calls = map alert_of (first_seen seen calls) \<and>
          processed_alerts (add_alerts s calls) =
            processed_alerts s |\<union>| fset_of_list (map call_id calls)"
      using Cons.prems u by (intro Cons.IH) (simp_all del: fset_of_list_map)
    then show ?thesis
      using True mem u by (simp add: c add_alert_seen del: fset_of_list_map) (simp add: call_id_def)
  next
    case False
    let ?s' = "add_alert s now msg alert_id"
    have u: "processed_alerts s |\<union>| fset_of_list (map call_id (c # calls)) =
             finsert alert_id (processed_alerts s) |\<union>| fset_of_list (map call_id calls)"
      by (auto simp: c call_id_def simp del: fset_of_list_map)
    have "fcard (finsert alert_id (processed_alerts s)) \<le>
            fcard (finsert alert_id (processed_alerts s) |\<union>| fset_of_list (map call_id calls))"
      by (intro fcard_mono) auto
    with Cons.prems(2) u have small: "\<not> 1000 < fcard (finsert alert_id (processed_alerts s))"
      by simp
    have p': "processed_alerts ?s' = finsert alert_id (processed_alerts s)"
      using add_alert_new(2) [OF False, of now msg] small by simp
    have "accepted ?s' calls = map alert_of (first_seen (alert_id # seen) calls) \<and>
          processed_alerts (add_alerts ?s' calls) =
            processed_alerts ?s' |\<union>| fset_of_list (map call_id calls)"
      using Cons.prems u by (intro Cons.IH) (simp_all add: p' del: fset_of_list_map)
    then show ?thesis
      using False mem u
      by (simp add: c p' del: fset_of_list_map) (simp add: call_id_def alert_of_def)
  qed
qed

lemma accepted_subseq: "subseq (accepted s calls) (map alert_of calls)"
proof (induction calls arbitrary: s)
  case Nil
  show ?case by simp
next
  case (Cons c calls)
  obtain now msg alert_id where c: "c = (now, msg, alert_id)" by (cases c) auto
  have IH: "subseq (accepted (add_alert s now msg alert_id) calls) (map alert_of calls)"
    by (rule Cons.IH)
  then have 1: "subseq (accepted (add_alert s now msg alert_id) calls)
                     (alert_of c # map alert_of calls)"
    by (rule list_emb_Cons)
  from IH have 2: "subseq (alert_of c # accepted (add_alert s now msg alert_id) calls)
                     (alert_of c # map alert_of calls)"
    by simp
  have n: "\<lparr> message = msg, timestamp = now, a_id = alert_id \<rparr> = alert_of c"
    by (simp add: c alert_of_def)
  show ?case
  proof (cases "alert_id |\<in>| processed_alerts s")
    case True
    with 1 show ?thesis unfolding c [symmetric] list.map by (simp add: c)
  next
    case False
    with 2 show ?thesis unfolding list.map by (simp add: c alert_of_def)
  qed
qed

lemma ledger_inv_add_alert:
  assumes "ledger_inv s"
  shows "ledger_inv (add_alert s now msg alert_id)"
proof (cases "alert_id |\<in>| processed_alerts s")
  case True
  with assms show ?thesis by (simp add: add_alert_seen)
next
  case False
  let ?s' = "add_alert s now msg alert_id"
  let ?new = "\<lparr> message = msg, timestamp = now, a_id = alert_id \<rparr>"
  let ?all = "alerts s @ [?new]"
  from assms have d: "distinct (map a_id (alerts s))"
    and sub: "fset_of_list (map a_id (alerts s)) |\<subseteq>| processed_alerts s"
    by (simp_all add: ledger_inv_def)
  have a: "alerts ?s' = tail 5 ?all" using False by (rule add_alert_new)
  have fresh: "alert_id \<notin> set (map a_id (alerts s))"
    using sub False by (metis fset_of_list_elem fsubsetD)
  then have dall: "distinct (map a_id ?all)" using d by simp
  have m: "map a_id (tail 5 ?all) = drop (length ?all - 5) (map a_id ?all)"
    by (simp add: tail_def drop_map)
  have d': "distinct (map a_id (alerts ?s'))"
    unfolding a m using dall by (rule distinct_drop)
  have "set (map a_id (alerts ?s')) \<subseteq> set (map a_id ?all)"
    unfolding a m by (rule set_drop_subset)
  then have "set (map a_id (alerts ?s')) \<subseteq> insert alert_id (set (map a_id (alerts s)))"
    by simp
  moreover have "set (map a_id (alerts s)) \<subseteq> fset (processed_alerts s)"
    using sub by (metis fset_of_list.rep_eq less_eq_fset.rep_eq)
  ultimately have "set (map a_id (alerts ?s')) \<subseteq> fset (finsert alert_id (processed_alerts s))"
    by auto
  then have s1: "fset_of_list (map a_id (alerts ?s')) |\<subseteq>| finsert alert_id (processed_alerts s)"
    by (metis fset_of_list.rep_eq less_eq_fset.rep_eq)
  have "fset_of_list (map a_id (alerts ?s')) |\<subseteq>| processed_alerts ?s'"
    using s1 add_alert_new(2) [OF False, of now msg] by simp
  moreover have "length (alerts ?s') \<le> 5" unfolding a by (simp add: length_tail)
  ultimately show ?thesis using d' by (simp add: ledger_inv_def)
qed

lemma ledger_inv_add_alerts: "ledger_inv s \<Longrightarrow> ledger_inv (add_alerts s calls)"
proof (induction calls arbitrary: s)
  case Nil
  then show ?case by simp
next
  case (Cons c calls)
  obtain now msg alert_id where c: "c = (now, msg, alert_id)" by (cases c) auto
  from Cons.prems have "ledger_inv (add_alert s now msg alert_id)"
    by (rule ledger_inv_add_alert)
  then show ?case unfolding c by (simp add: Cons.IH)
qed

lemma ledger_inv_init: "ledger_inv agent_init"
  by (simp add: ledger_inv_def agent_init_def)

lemma first_seen_fresh:
  "distinct (map call_id calls) \<Longrightarrow> set (map call_id calls) \<inter> set seen = {} \<Longrightarrow>
     first_seen seen calls = calls"
  by (induction calls arbitrary: seen) auto

lemma first_seen_append_seen:
  "call_id c \<in> set seen \<union> set (map call_id calls) \<Longrightarrow>
     first_seen seen (calls @ [c]) = first_seen seen calls"
  by (induction calls arbitrary: seen) auto

lemma many_calls_ids: "map call_id many_calls = [0..<1001]"
  unfolding many_calls_def by (simp add: call_id_def comp_def)

lemma many_calls_split:
  "many_calls = map (\<lambda>n. (int n, ''alert'', n)) [0..<1000] @ [(1000, ''alert'', 1000)]"
proof -
  have "[0..<1001] = [0..<1000] @ [1000::nat]"
    using upt_Suc_append [of 0 1000] by simp
  then show ?thesis unfolding many_calls_def by simp
qed

lemma many_calls_state:
  "map a_id (alerts (add_alerts agent_init many_calls)) = [996, 997, 998, 999, 1000]"
  "processed_alerts (add_alerts agent_init many_calls) = fset_of_list [996, 997, 998, 999, 1000]"
proof -
  let ?c = "map (\<lambda>n. (int n, ''alert'', n)) [0..<1000] :: (int \<times> string \<times> nat) list"
  let ?s1 = "add_alerts agent_init ?c"
  let ?s2 = "add_alert ?s1 1000 ''alert'' 1000"
  have ids: "map call_id ?c = [0..<1000]" by (simp add: call_id_def comp_def)
  have init: "processed_alerts (agent_init :: nat agent) = {||}" "alerts (agent_init :: nat agent) = []"
    by (simp_all add: agent_init_def)
  have "fcard (processed_alerts agent_init |\<union>| fset_of_list (map call_id ?c)) \<le> 1000"
    unfolding ids init by (simp add: fcard_fset_of_list)
  moreover have "fset_of_list [] = processed_alerts (agent_init :: nat agent)"
    unfolding init by simp
  ultimately have "accepted agent_init ?c = map alert_of (first_seen [] ?c) \<and>
      processed_alerts ?s1 = processed_alerts agent_init |\<union>| fset_of_list (map call_id ?c)"
    by (intro accepted_first_seen)
  moreover have "first_seen [] ?c = ?c"
    by (rule first_seen_fresh) (simp_all only: ids, simp_all)
  ultimately have acc: "accepted agent_init ?c = map alert_of ?c"
    and p1: "processed_alerts ?s1 = fset_of_list [0..<1000]"
    unfolding ids init by simp_all
  have "alerts ?s1 = tail 5 (alerts agent_init @ accepted agent_init ?c)"
    by (rule alerts_add_alerts) (simp add: init)
  then have "map a_id (alerts ?s1) = tail 5 [0..<1000]"
    unfolding init acc by (simp add: map_tail alert_of_def comp_def)
  also have "\<dots> = [995..<1000]" by (simp add: tail_def)
  also have "\<dots> = [995, 996, 997, 998, 999]" by (simp add: upt_rec)
  finally have a1: "map a_id (alerts ?s1) = [995, 996, 997, 998, 999]" .
  have new: "1000 |\<notin>| processed_alerts ?s1"
    unfolding p1 by (simp add: fset_of_list_elem)
  have "map a_id (alerts ?s2) = tail 5 (map a_id (alerts ?s1) @ [1000])"
    unfolding add_alert_new(1) [OF new] by (simp add: map_tail)
  then have a2: "map a_id (alerts ?s2) = [996, 997, 998, 999, 1000]"
    unfolding a1 by (simp add: tail_def)
  have "finsert 1000 (processed_alerts ?s1) = fset_of_list (1000 # [0..<1000])"
    unfolding p1 by simp
  then have "fcard (finsert 1000 (processed_alerts ?s1)) = length (remdups (1000 # [0..<1000]))"
    by (simp only: fcard_fset_of_list)
  also have "\<dots> = 1001" by (simp add: distinct_remdups_id)
  finally have big: "1000 < fcard (finsert 1000 (processed_alerts ?s1))" by simp
  have p2: "processed_alerts ?s2 = fset_of_list [996, 997, 998, 999, 1000]"
    unfolding add_alert_new(2) [OF new] using big a2 by (simp del: fset_of_list_map fset_of_list_simps)
  have s2: "add_alerts agent_init many_calls = ?s2"
    unfolding many_calls_split add_alerts_append by simp
  show "map a_id (alerts (add_alerts agent_init many_calls)) = [996, 997, 998, 999, 1000]"
    unfolding s2 by (rule a2)
  show "processed_alerts (add_alerts agent_init many_calls) = fset_of_list [996, 997, 998, 999, 1000]"
    unfolding s2 by (rule p2)
qed

text \<open>
  When the analysis itself fails (here: the exchange answers with no rows, so reading the
  last close raises), the snapshot of the \<open>except\<close> branch carries
  \<open>is_critical = False\<close>.
\<close>

lemma analysis_error_snapshot:
  "technical_data (analyze_trends Config sample_env ''BTCUSDT'' None None) ''is_critical''
     = Some (PyBool False) \<and>
   technical_data (analyze_trends Config sample_env ''BTCUSDT'' None None) ''break_analysis''
     = Some (PyStr ''Error'')"
proof -
  have "fst (get_historical_data Config sample_env ''BTCUSDT'' None None) = Some []"
    by (simp add: get_historical_data_def get_historical_data_body_def Let_def
                  is_valid_symbol_def Config_simps)
  moreover have "analyze_frame Config sample_env ''BTCUSDT'' [] = Inl IndexError"
    by (simp add: analyze_frame_def Let_def iloc_def column_def)
  ultimately show ?thesis by (simp add: analyze_trends_def)
qed

section \<open>Criticality classifier\<close>

text \<open>
  Claim C1, as amended. Nothing is raised in the body of the classifier, and it answers
  true exactly when one of five clauses holds: the trend line is not zero and the
  relative deviation of the price from it exceeds the breakout threshold; the support and
  the resistance are not zero and the price is within 2% of the support-resistance range
  of one of the two; the RSI is at least 70 or at most 30; the frame has at least 20 bars
  and the current volume exceeds twice the 20-period rolling average volume; the
  fake-breakout pattern holds on the last three bars. An absent or not-a-number input
  makes its clause false, and so does a trend line, a support or a resistance of zero.
  With an RSI of 71 the answer is true whatever the other inputs are. The arithmetic is
  that of any floating-point unit.
\<close>

theorem is_critical_moment_iff:
  "is_critical_moment fp cfg df price trend_line support resistance rsi =
     (clause_trend_deviation_nonzero fp (TREND_breakout_threshold cfg) price trend_line \<or>
      clause_near_bound_nonzero fp price support resistance \<or>
      clause_rsi_extreme rsi \<or>
      clause_volume_spike fp (map c_volume (f_candles df)) \<or>
      clause_fake_breakout df) \<and>
   (\<exists>b. is_critical_moment_body fp cfg df price trend_line support resistance rsi = Inr b) \<and>
   is_critical_moment fp cfg df price trend_line support resistance (Some (Num 71))"
  by (simp add: is_critical_moment_def is_critical_moment_body_eq clause_rsi_extreme_def
                fge_def)

theorem is_critical_moment_iff_witness:
  "\<not> clause_trend_deviation_nonzero exact_unit (TREND_breakout_threshold Config) (Num 100)
       (Some (Num 100)) \<and>
   \<not> clause_near_bound_nonzero exact_unit (Num 100) (Some (Num 90)) (Some (Num 110)) \<and>
   \<not> clause_volume_spike exact_unit (map c_volume (f_candles quiet_frame)) \<and>
   \<not> clause_fake_breakout quiet_frame \<and>
   \<not> is_critical_moment exact_unit Config quiet_frame (Num 100) (Some (Num 100))
        (Some (Num 90)) (Some (Num 110)) (Some (Num 50)) \<and>
   is_critical_moment exact_unit Config quiet_frame (Num 100) (Some (Num 100))
        (Some (Num 90)) (Some (Num 110)) (Some (Num 71)) \<and>
   clause_near_bound_nonzero exact_unit (Num 109.9) (Some (Num 90)) (Some (Num 110)) \<and>
   is_critical_moment exact_unit Config quiet_frame (Num 109.9) (Some (Num 100))
        (Some (Num 90)) (Some (Num 110)) (Some (Num 50))"
proof -
  have t: "\<not> clause_trend_deviation_nonzero exact_unit (TREND_breakout_threshold Config)
               (Num 100) (Some (Num 100))"
    by (simp add: clause_trend_deviation_nonzero_def clause_trend_deviation_def Config_simps
                  double_0_02_def rdiv_def rsub_def fsub_def fgt_def)
  have b: "\<not> clause_near_bound_nonzero exact_unit (Num 100) (Some (Num 90)) (Some (Num 110))"
    by (simp add: clause_near_bound_nonzero_def clause_near_bound_def rmul_def rsub_def
                  fsub_def double_0_02_def)
  have b': "clause_near_bound_nonzero exact_unit (Num 109.9) (Some (Num 90)) (Some (Num 110))"
    by (simp add: clause_near_bound_nonzero_def clause_near_bound_def rmul_def rsub_def
                  fsub_def double_0_02_def)
  have v: "\<not> clause_volume_spike exact_unit (map c_volume (f_candles quiet_frame))"
    by (simp add: clause_volume_spike_def quiet_frame_def)
  have f: "\<not> clause_fake_breakout quiet_frame"
    by (simp add: clause_fake_breakout_def quiet_frame_def up_fake_def down_fake_def fgt_def)
  have r: "\<not> clause_rsi_extreme (Some (Num 50))"
    by (simp add: clause_rsi_extreme_def fge_def)
  show ?thesis
    using is_critical_moment_iff [of exact_unit Config quiet_frame "Num 100" "Some (Num 100)"
        "Some (Num 90)" "Some (Num 110)" "Some (Num 50)"]
      is_critical_moment_iff [of exact_unit Config quiet_frame "Num 109.9" "Some (Num 100)"
        "Some (Num 90)" "Some (Num 110)" "Some (Num 50)"]
      t b b' v f r
    by simp
qed

text \<open>
  The claim as stated has no exception for a level of zero. With a support of 0 and a
  resistance of 100 the price 1 is within 2% of the range of the support, and with a
  trend line of 0 the deviation of the price 1 exceeds the threshold; in both cases no
  other clause holds and the classifier answers false, because the tests
  \<open>if trend_line:\<close> and \<open>if support and resistance:\<close> take a zero for a missing
  value.
\<close>

theorem zero_level_counterexample:
  "clause_near_bound exact_unit (Num 1) (Some (Num 0)) (Some (Num 100)) \<and>
   \<not> is_critical_moment exact_unit Config quiet_frame (Num 1) None (Some (Num 0))
        (Some (Num 100)) None \<and>
   clause_trend_deviation exact_unit (TREND_breakout_threshold Config) (Num 1) (Some (Num 0)) \<and>
   \<not> is_critical_moment exact_unit Config quiet_frame (Num 1) (Some (Num 0)) None None None"
proof -
  have b: "clause_near_bound exact_unit (Num 1) (Some (Num 0)) (Some (Num 100))"
    by (simp add: clause_near_bound_def rmul_def rsub_def fsub_def double_0_02_def)
  have t: "clause_trend_deviation exact_unit (TREND_breakout_threshold Config) (Num 1)
             (Some (Num 0))"
    by (simp add: clause_trend_deviation_def rdiv_def rsub_def fsub_def fgt_def)
  have v: "\<not> clause_volume_spike exact_unit (map c_volume (f_candles quiet_frame))"
    by (simp add: clause_volume_spike_def quiet_frame_def)
  have f: "\<not> clause_fake_breakout quiet_frame"
    by (simp add: clause_fake_breakout_def quiet_frame_def up_fake_def down_fake_def fgt_def)
  have "\<not> is_critical_moment exact_unit Config quiet_frame (Num 1) None (Some (Num 0))
        (Some (Num 100)) None"
    using v f
    by (simp add: is_critical_moment_def is_critical_moment_body_eq
                  clause_trend_deviation_nonzero_def clause_trend_deviation_def
                  clause_near_bound_nonzero_def clause_rsi_extreme_def)
  moreover have "\<not> is_critical_moment exact_unit Config quiet_frame (Num 1) (Some (Num 0))
        None None None"
    using v f
    by (simp add: is_critical_moment_def is_critical_moment_body_eq
                  clause_trend_deviation_nonzero_def clause_near_bound_nonzero_def
                  clause_near_bound_def clause_rsi_extreme_def)
  ultimately show ?thesis using b t by simp
qed

section \<open>Breakout events\<close>

text \<open>
  Claim C2. At a position \<open>t\<close> whose previous support and resistance are defined, the
  breakout event is Up (1) exactly when the close is above the previous resistance times
  (1 + threshold) and the previous close is at most that resistance; it is Down (-1)
  exactly when the close is below the previous support times (1 - threshold) and the
  previous close is at least that support; it is never both; and if both conditions held
  the event would be Up. The statement is for a threshold and a previous support that are
  not negative (prices are positive) and for a rounding that is monotone and leaves zero
  unchanged, as rounding to the nearest float is; the two conditions then exclude each
  other.
\<close>

theorem trend_break_event:
  assumes t: "0 < t" "t < length cs"
    and r: "f_resistance (calculate_technical_indicators fp cfg cs) ! (t - 1) = Num r"
    and s: "f_support (calculate_technical_indicators fp cfg cs) ! (t - 1) = Num s"
    and mono: "mono (fp_round fp)" and zero: "fp_round fp 0 = 0"
    and th: "0 \<le> TREND_breakout_threshold cfg" and s0: "0 \<le> s"
  shows "(f_trend_break (calculate_technical_indicators fp cfg cs) ! t = Num 1) =
           up_break fp (TREND_breakout_threshold cfg) (c_close (cs ! t))
             (c_close (cs ! (t - 1))) r \<and>
         (f_trend_break (calculate_technical_indicators fp cfg cs) ! t = Num (- 1)) =
           down_break fp (TREND_breakout_threshold cfg) (c_close (cs ! t))
             (c_close (cs ! (t - 1))) s \<and>
         \<not> (f_trend_break (calculate_technical_indicators fp cfg cs) ! t = Num 1 \<and>
            f_trend_break (calculate_technical_indicators fp cfg cs) ! t = Num (- 1)) \<and>
         (up_break fp (TREND_breakout_threshold cfg) (c_close (cs ! t))
             (c_close (cs ! (t - 1))) r \<and>
          down_break fp (TREND_breakout_threshold cfg) (c_close (cs ! t))
             (c_close (cs ! (t - 1))) s \<longrightarrow>
          f_trend_break (calculate_technical_indicators fp cfg cs) ! t = Num 1)"
  using trend_break_defined [OF t r s]
    breaks_exclusive [OF mono zero th s0, of "c_close (cs ! t)" "c_close (cs ! (t - 1))" r]
  by auto

theorem trend_break_event_witness:
  "0 < (20::nat) \<and> 20 < length breakout_series \<and>
   f_resistance (calculate_technical_indicators exact_unit Config breakout_series) ! (20 - 1)
     = Num 110 \<and>
   f_support (calculate_technical_indicators exact_unit Config breakout_series) ! (20 - 1)
     = Num 90 \<and>
   mono (fp_round exact_unit) \<and> fp_round exact_unit 0 = 0 \<and>
   0 \<le> TREND_breakout_threshold Config \<and> (0::real) \<le> 90 \<and>
   up_break exact_unit (TREND_breakout_threshold Config) 120 100 110 \<and>
   \<not> down_break exact_unit (TREND_breakout_threshold Config) 120 100 90 \<and>
   f_trend_break (calculate_technical_indicators exact_unit Config breakout_series) ! 20 = Num 1"
proof -
  have h1: "0 < (20::nat)" by simp
  have h2: "20 < length breakout_series" by (simp add: breakout_series_facts)
  have h3: "f_resistance (calculate_technical_indicators exact_unit Config breakout_series)
              ! (20 - 1) = Num 110"
    by (simp add: frame_fields resistance_nth breakout_series_facts Config_simps max_agg_def)
  have h4: "f_support (calculate_technical_indicators exact_unit Config breakout_series)
              ! (20 - 1) = Num 90"
    by (simp add: frame_fields support_nth breakout_series_facts Config_simps min_agg_def)
  have h5: "fp_round exact_unit 0 = 0" by simp
  have h6: "0 \<le> TREND_breakout_threshold Config"
    by (simp add: Config_simps double_0_02_def)
  have h7: "(0::real) \<le> 90" by simp
  have u: "up_break exact_unit (TREND_breakout_threshold Config) 120 100 110"
    by (simp add: up_break_def Config_simps double_0_02_def)
  have d: "\<not> down_break exact_unit (TREND_breakout_threshold Config) 120 100 90"
    by (simp add: down_break_def Config_simps double_0_02_def)
  show ?thesis
    using trend_break_event [OF h1 h2 h3 h4 mono_exact_unit h5 h6 h7] h2 h3 h4 h6 u d
      mono_exact_unit
    by (simp add: breakout_series_facts)
qed

text \<open>
  The order of the two assignments shows only on data that the candle model excludes: on
  21 bars at the constant price -100 both conditions hold at position 20 and the event is
  Down, the down-breaks being written after the up-breaks.
\<close>

lemma down_break_written_last:
  "up_break exact_unit (TREND_breakout_threshold Config) (- 100) (- 100) (- 100) \<and>
   down_break exact_unit (TREND_breakout_threshold Config) (- 100) (- 100) (- 100) \<and>
   f_trend_break (calculate_technical_indicators exact_unit Config negative_series) ! 20
     = Num (- 1)"
proof -
  have r: "snd (calculate_support_resistance Config negative_series) ! 19 = Num (- 100)"
    by (simp add: resistance_nth negative_series_def Config_simps window_replicate max_agg_def)
  have s: "fst (calculate_support_resistance Config negative_series) ! 19 = Num (- 100)"
    by (simp add: support_nth negative_series_def Config_simps window_replicate min_agg_def)
  have n: "negative_series ! 20 = candle_of (- 100) (- 100) (- 100) 1000"
    "negative_series ! 19 = candle_of (- 100) (- 100) (- 100) 1000"
    "length negative_series = 21"
    by (simp_all add: negative_series_def)
  have u: "up_break exact_unit (TREND_breakout_threshold Config) (- 100) (- 100) (- 100)"
    by (simp add: up_break_def Config_simps double_0_02_def)
  have d: "down_break exact_unit (TREND_breakout_threshold Config) (- 100) (- 100) (- 100)"
    by (simp add: down_break_def Config_simps double_0_02_def)
  have "f_trend_break (calculate_technical_indicators exact_unit Config negative_series) ! 20
          = Num (- 1)"
    using trend_break_defined [of 20 negative_series exact_unit Config "- 100" "- 100"] r s d
    by (simp add: frame_fields n)
  with u d show ?thesis by simp
qed

section \<open>Degraded mode\<close>

text \<open>
  Claim C3, evaluated at a failing fetch. For the symbol DOGEUSDT, which is not monitored,
  the fetch fails in every world and \<open>analyze_trends\<close> returns its default snapshot:
  price, trend line, support, resistance and RSI are \<open>None\<close> and the narrative is the
  fixed non-empty message, and nothing is raised; but the snapshot has no
  \<open>is_critical\<close> entry at all, where the claim has it false.
\<close>

theorem fetch_failure_snapshot:
  "technical_data (analyze_trends Config ev ''DOGEUSDT'' (Some ''1d'') (Some 30))
     ''is_critical'' = None \<and>
   technical_data (analyze_trends Config ev ''DOGEUSDT'' (Some ''1d'') (Some 30))
     ''current_price'' = Some PyNone \<and>
   technical_data (analyze_trends Config ev ''DOGEUSDT'' (Some ''1d'') (Some 30))
     ''trend_line'' = Some PyNone \<and>
   technical_data (analyze_trends Config ev ''DOGEUSDT'' (Some ''1d'') (Some 30))
     ''support'' = Some PyNone \<and>
   technical_data (analyze_trends Config ev ''DOGEUSDT'' (Some ''1d'') (Some 30))
     ''resistance'' = Some PyNone \<and>
   technical_data (analyze_trends Config ev ''DOGEUSDT'' (Some ''1d'') (Some 30))
     ''rsi'' = Some PyNone \<and>
   analysis (analyze_trends Config ev ''DOGEUSDT'' (Some ''1d'') (Some 30)) =
     msg_no_market_data \<and>
   msg_no_market_data \<noteq> []"
proof -
  have "\<not> is_valid_symbol Config ''DOGEUSDT''"
    by (simp add: is_valid_symbol_def Config_simps)
  then have "fst (get_historical_data Config ev ''DOGEUSDT'' (Some ''1d'') (Some 30)) = None"
    by (auto simp: get_historical_data_def get_historical_data_body_def Let_def
             split: sum.splits)
  then show ?thesis
    by (simp add: analyze_trends_def msg_no_market_data_def)
qed

section \<open>Fake-breakout check\<close>

text \<open>
  Claim C4. On a frame whose support and resistance columns are as long as the frame, the
  fake-breakout check is true exactly when the frame has at least three bars and, with
  the resistance (support) of the third-last position as the reference, the third-last
  high is above the reference resistance, the second-last close is above it and the last
  close is below it, or symmetrically against the reference support. It is false for
  fewer than three bars and does not depend on the breakout event column.
\<close>

theorem check_fake_breakout_iff:
  assumes "length (f_resistance df) = length (f_candles df)"
    and "length (f_support df) = length (f_candles df)"
  shows "check_fake_breakout df =
           (3 \<le> length (f_candles df) \<and>
            (let n = length (f_candles df); bars = f_candles df
             in up_fake (bars ! (n - 3)) (bars ! (n - 2)) (bars ! (n - 1))
                  (f_resistance df ! (n - 3)) \<or>
                down_fake (bars ! (n - 3)) (bars ! (n - 2)) (bars ! (n - 1))
                  (f_support df ! (n - 3)))) \<and>
         check_fake_breakout (df\<lparr> f_trend_break := tb \<rparr>) = check_fake_breakout df"
  using check_fake_breakout_unfold [OF assms] check_fake_breakout_ignores_trend_break [of tb df]
  by simp

theorem check_fake_breakout_iff_witness:
  "length (f_resistance fake_up_frame) = length (f_candles fake_up_frame) \<and>
   length (f_support fake_up_frame) = length (f_candles fake_up_frame) \<and>
   check_fake_breakout fake_up_frame \<and>
   check_fake_breakout (fake_up_frame\<lparr> f_trend_break := [Num 1, Num (- 1), NaN] \<rparr>)"
proof -
  have h1: "length (f_resistance fake_up_frame) = length (f_candles fake_up_frame)"
    and h2: "length (f_support fake_up_frame) = length (f_candles fake_up_frame)"
    by (simp_all add: fake_up_frame_def)
  show ?thesis
    using check_fake_breakout_iff [OF h1 h2, of "[Num 1, Num (- 1), NaN]"] h1 h2
    by (simp add: fake_up_frame_def up_fake_def fgt_def)
qed

section \<open>Relative strength index\<close>

text \<open>
  Claim C5, as amended. The RSI at position \<open>i\<close> is missing before the window of the
  configured period is full; from then on it is computed from the simple averages of the
  gains and of the losses over the window: 100 - 100 / (1 + avgGain / avgLoss) when the
  average loss is not zero, 100 when the average loss is zero and the average gain is
  not, and not-a-number when both are zero. Every RSI value is not-a-number or lies
  between 0 and 100.
\<close>

theorem rsi_value:
  assumes "i < length cs" and "0 < RSI_period cfg"
  shows "f_RSI (calculate_technical_indicators fp cfg cs) ! i =
           (if Suc i < RSI_period cfg then NaN
            else rsi_of (avg_gain (RSI_period cfg) (map c_close cs) i)
                        (avg_loss (RSI_period cfg) (map c_close cs) i)) \<and>
         rsi_gain (RSI_period cfg) (column c_close cs) ! i =
           (if Suc i < RSI_period cfg then NaN
            else Num (avg_gain (RSI_period cfg) (map c_close cs) i)) \<and>
         rsi_loss (RSI_period cfg) (column c_close cs) ! i =
           (if Suc i < RSI_period cfg then NaN
            else Num (avg_loss (RSI_period cfg) (map c_close cs) i)) \<and>
         rsi_in_range (f_RSI (calculate_technical_indicators fp cfg cs) ! i)"
proof -
  have i: "i < length (map c_close cs)" using assms by simp
  have v: "f_RSI (calculate_technical_indicators fp cfg cs) ! i =
           (if Suc i < RSI_period cfg then NaN
            else rsi_of (avg_gain (RSI_period cfg) (map c_close cs) i)
                        (avg_loss (RSI_period cfg) (map c_close cs) i))"
    unfolding frame_fields column_eq using i assms(2) by (rule rsi_series_nth)
  have g: "rsi_gain (RSI_period cfg) (column c_close cs) ! i =
           (if Suc i < RSI_period cfg then NaN
            else Num (avg_gain (RSI_period cfg) (map c_close cs) i))"
    unfolding column_eq using i assms(2) by (rule rsi_gain_nth)
  have l: "rsi_loss (RSI_period cfg) (column c_close cs) ! i =
           (if Suc i < RSI_period cfg then NaN
            else Num (avg_loss (RSI_period cfg) (map c_close cs) i))"
    unfolding column_eq using i assms(2) by (rule rsi_loss_nth)
  have "rsi_in_range (f_RSI (calculate_technical_indicators fp cfg cs) ! i)"
    unfolding v using rsi_of_in_range [OF avg_gain_nonneg avg_loss_nonneg]
    by (simp add: rsi_in_range_def)
  with v g l show ?thesis by simp
qed

theorem rsi_value_witness:
  "13 < length swing_series \<and> 0 < RSI_period Config \<and>
   f_RSI (calculate_technical_indicators exact_unit Config swing_series) ! 13 = Num 50"
proof -
  have h1: "13 < length swing_series" by (simp add: swing_series_def)
  have h2: "0 < RSI_period Config" by (simp add: Config_simps)
  have g: "avg_gain 14 (map c_close swing_series) 13 = 10 / 14"
    unfolding swing_closes by (simp add: avg_gain_def gains_def window_def upt_14)
  have l: "avg_loss 14 (map c_close swing_series) 13 = 10 / 14"
    unfolding swing_closes by (simp add: avg_loss_def losses_def window_def upt_14)
  show ?thesis
    using rsi_value [OF h1 h2] h1 h2 by (simp add: Config_simps g l rsi_of_def)
qed

text \<open>
  The claim as stated has the case of a zero average loss clamped to 100. On 14 bars with
  the same close the average loss is zero and the RSI is not-a-number.
\<close>

theorem rsi_flat_counterexample:
  "avg_loss (RSI_period Config) (map c_close flat_series) 13 = 0 \<and>
   rsi_loss (RSI_period Config) (column c_close flat_series) ! 13 = Num 0 \<and>
   f_RSI (calculate_technical_indicators exact_unit Config flat_series) ! 13 = NaN \<and>
   f_RSI (calculate_technical_indicators exact_unit Config flat_series) ! 13 \<noteq> Num 100"
proof -
  have l: "avg_loss 14 (map c_close flat_series) 13 = 0"
    by (simp add: avg_loss_def flat_series_def losses_replicate window_replicate sum_list_replicate)
  have g: "avg_gain 14 (map c_close flat_series) 13 = 0"
    by (simp add: avg_gain_def flat_series_def gains_replicate window_replicate sum_list_replicate)
  have i: "13 < length (map c_close flat_series)" by (simp add: flat_series_def)
  have "rsi_series 14 (map Num (map c_close flat_series)) ! 13 = NaN"
    using rsi_series_nth [OF i, of 14] by (simp add: l g rsi_of_def)
  moreover have "rsi_loss 14 (map Num (map c_close flat_series)) ! 13 = Num 0"
    using rsi_loss_nth [OF i, of 14] by (simp add: l)
  ultimately show ?thesis
    using l by (simp add: frame_fields column_eq Config_simps)
qed

section \<open>Alignment of the derived series\<close>

text \<open>
  Claim C6, as amended. For every source series, the empty one included, every derived
  series of the indicator engine (the moving averages of all configured periods, trend
  line, support, resistance, the three Bollinger series, RSI and breakout events) is as
  long as the source series. For each rolling statistic of period \<open>p\<close> (the moving
  averages, support and resistance, the Bollinger series, the averaged gains and the
  averaged losses) the entry at position \<open>i\<close> is missing exactly when
  \<open>i < p - 1\<close>, so its leading missing prefix has length \<open>p - 1\<close>, or the length
  of the series when that is smaller. The RSI, a quotient of two rolling statistics, is
  missing when \<open>i < p - 1\<close> and also wherever the averaged gain and the averaged
  loss are both zero, so its leading missing prefix has at least that length.
\<close>

theorem derived_series_alignment:
  "(let df = calculate_technical_indicators fp Config cs; n = length cs;
        closes = map c_close cs; q = RSI_period Config
    in list_all (\<lambda>(p, ma). length ma = n) (f_MA df) \<and>
       map fst (f_MA df) = MA_periods Config \<and>
       length (f_trend_line df) = n \<and>
       length (f_support df) = n \<and>
       length (f_resistance df) = n \<and>
       length (f_BB_middle df) = n \<and>
       length (f_BB_upper df) = n \<and>
       length (f_BB_lower df) = n \<and>
       length (f_RSI df) = n \<and>
       length (f_trend_break df) = n \<and>
       list_all (\<lambda>(p, ma). undefined_prefix ma = min (p - 1) n \<and>
                            (\<forall>i<n. (ma ! i = NaN) = (Suc i < p))) (f_MA df) \<and>
       undefined_prefix (f_support df) = min (MA_default_period Config - 1) n \<and>
       undefined_prefix (f_resistance df) = min (MA_default_period Config - 1) n \<and>
       undefined_prefix (f_BB_middle df) = min (Bollinger_period Config - 1) n \<and>
       undefined_prefix (f_BB_upper df) = min (Bollinger_period Config - 1) n \<and>
       undefined_prefix (f_BB_lower df) = min (Bollinger_period Config - 1) n \<and>
       undefined_prefix (rsi_gain q (column c_close cs)) = min (q - 1) n \<and>
       undefined_prefix (rsi_loss q (column c_close cs)) = min (q - 1) n \<and>
       min (q - 1) n \<le> undefined_prefix (f_RSI df) \<and>
       (\<forall>i<n. (f_support df ! i = NaN) = (Suc i < MA_default_period Config) \<and>
              (f_resistance df ! i = NaN) = (Suc i < MA_default_period Config) \<and>
              (f_BB_middle df ! i = NaN) = (Suc i < Bollinger_period Config) \<and>
              (f_BB_upper df ! i = NaN) = (Suc i < Bollinger_period Config) \<and>
              (f_BB_lower df ! i = NaN) = (Suc i < Bollinger_period Config) \<and>
              (rsi_gain q (column c_close cs) ! i = NaN) = (Suc i < q) \<and>
              (rsi_loss q (column c_close cs) ! i = NaN) = (Suc i < q) \<and>
              (f_RSI df ! i = NaN) =
                (Suc i < q \<or> (avg_gain q closes i = 0 \<and> avg_loss q closes i = 0))))"
proof -
  let ?df = "calculate_technical_indicators fp Config cs"
  let ?q = "RSI_period Config"
  have q: "0 < ?q" by (simp add: Config_simps)
  have periods: "map fst (f_MA ?df) = MA_periods Config"
    by (simp add: frame_fields comp_def)
  have sr: "(f_support ?df ! i = NaN) = (Suc i < MA_default_period Config)"
    "(f_resistance ?df ! i = NaN) = (Suc i < MA_default_period Config)" if "i < length cs" for i
    using that by (simp_all add: support_NaN_iff Config_simps)
  have bm: "(f_BB_middle ?df ! i = NaN) = (Suc i < Bollinger_period Config)"
    if "i < length cs" for i
    unfolding frame_fields using that by (intro rolling_mean_NaN_iff) (simp_all add: Config_simps)
  have bb: "(f_BB_upper ?df ! i = NaN) = (Suc i < Bollinger_period Config)"
    "(f_BB_lower ?df ! i = NaN) = (Suc i < Bollinger_period Config)" if "i < length cs" for i
    using that by (simp_all add: bands_NaN_iff Config_simps)
  have gl: "(rsi_gain ?q (column c_close cs) ! i = NaN) = (Suc i < ?q)"
    "(rsi_loss ?q (column c_close cs) ! i = NaN) = (Suc i < ?q)" if "i < length cs" for i
    using that q by (simp_all add: rsi_gain_loss_NaN_iff)
  have rs: "(f_RSI ?df ! i = NaN) =
              (Suc i < ?q \<or> (avg_gain ?q (map c_close cs) i = 0 \<and>
                              avg_loss ?q (map c_close cs) i = 0))" if "i < length cs" for i
    unfolding frame_fields using that q by (rule rsi_NaN_iff)
  have mp: "0 < MA_default_period Config" and bp: "0 < Bollinger_period Config"
    by (simp_all add: Config_simps)
  have pre_s: "undefined_prefix (f_support ?df) = min (MA_default_period Config - 1) (length cs)"
    using aligned_lengths(2) sr(1) mp by (rule undefined_prefix_column)
  have pre_r: "undefined_prefix (f_resistance ?df) = min (MA_default_period Config - 1) (length cs)"
    using aligned_lengths(3) sr(2) mp by (rule undefined_prefix_column)
  have pre_m: "undefined_prefix (f_BB_middle ?df) = min (Bollinger_period Config - 1) (length cs)"
    using aligned_lengths(4) bm bp by (rule undefined_prefix_column)
  have pre_u: "undefined_prefix (f_BB_upper ?df) = min (Bollinger_period Config - 1) (length cs)"
    using length_bands(1) bb(1) bp by (rule undefined_prefix_column)
  have pre_l: "undefined_prefix (f_BB_lower ?df) = min (Bollinger_period Config - 1) (length cs)"
    using length_bands(2) bb(2) bp by (rule undefined_prefix_column)
  have pre_g: "undefined_prefix (rsi_gain ?q (column c_close cs)) = min (?q - 1) (length cs)"
  proof (rule undefined_prefix_column)
    show "length (rsi_gain ?q (column c_close cs)) = length cs"
      by (simp add: length_rsi_gain length_column)
  qed (simp_all add: gl q)
  have pre_lo: "undefined_prefix (rsi_loss ?q (column c_close cs)) = min (?q - 1) (length cs)"
  proof (rule undefined_prefix_column)
    show "length (rsi_loss ?q (column c_close cs)) = length cs"
      by (simp add: length_rsi_loss length_column)
  qed (simp_all add: gl q)
  have pre_rsi: "min (?q - 1) (length cs) \<le> undefined_prefix (f_RSI ?df)"
    using aligned_lengths(5) by (rule undefined_prefix_ge) (simp add: rs)
  have pt: "\<forall>i<length cs.
              (f_support ?df ! i = NaN) = (Suc i < MA_default_period Config) \<and>
              (f_resistance ?df ! i = NaN) = (Suc i < MA_default_period Config) \<and>
              (f_BB_middle ?df ! i = NaN) = (Suc i < Bollinger_period Config) \<and>
              (f_BB_upper ?df ! i = NaN) = (Suc i < Bollinger_period Config) \<and>
              (f_BB_lower ?df ! i = NaN) = (Suc i < Bollinger_period Config) \<and>
              (rsi_gain ?q (column c_close cs) ! i = NaN) = (Suc i < ?q) \<and>
              (rsi_loss ?q (column c_close cs) ! i = NaN) = (Suc i < ?q) \<and>
              (f_RSI ?df ! i = NaN) =
                (Suc i < ?q \<or> (avg_gain ?q (map c_close cs) i = 0 \<and>
                                avg_loss ?q (map c_close cs) i = 0))"
    using sr bm bb gl rs by blast
  show ?thesis
    unfolding Let_def
    using length_MA [of cs fp Config] periods aligned_lengths [of fp Config cs]
      length_bands [of fp Config cs] length_trend_break [of fp Config cs]
      aligned_MA [of cs fp] pre_s pre_r pre_m pre_u pre_l pre_g pre_lo pre_rsi pt
    by blast
qed

theorem derived_series_alignment_witness:
  "length breakout_series = 21 \<and>
   map fst (f_MA (calculate_technical_indicators exact_unit Config breakout_series)) =
     [5, 10, 20, 50, 100, 200] \<and>
   length (f_trend_break (calculate_technical_indicators exact_unit Config breakout_series)) = 21 \<and>
   length (f_RSI (calculate_technical_indicators exact_unit Config breakout_series)) = 21 \<and>
   f_support (calculate_technical_indicators exact_unit Config breakout_series) ! 18 = NaN \<and>
   f_support (calculate_technical_indicators exact_unit Config breakout_series) ! 19 \<noteq> NaN \<and>
   f_BB_upper (calculate_technical_indicators exact_unit Config breakout_series) ! 19 \<noteq> NaN \<and>
   rsi_gain (RSI_period Config) (column c_close breakout_series) ! 13 \<noteq> NaN \<and>
   f_RSI (calculate_technical_indicators exact_unit Config breakout_series) ! 12 = NaN \<and>
   undefined_prefix (f_support (calculate_technical_indicators exact_unit Config breakout_series))
     = 19 \<and>
   undefined_prefix (f_BB_lower (calculate_technical_indicators exact_unit Config breakout_series))
     = 19 \<and>
   undefined_prefix (rsi_loss (RSI_period Config) (column c_close breakout_series)) = 13 \<and>
   length (f_RSI (calculate_technical_indicators exact_unit Config [])) = 0 \<and>
   length (f_trend_break (calculate_technical_indicators exact_unit Config [])) = 0 \<and>
   undefined_prefix (f_support (calculate_technical_indicators exact_unit Config [])) = 0"
proof -
  note t = derived_series_alignment [of exact_unit breakout_series, unfolded Let_def]
  note e = derived_series_alignment [of exact_unit "[]", unfolded Let_def]
  let ?df = "calculate_technical_indicators exact_unit Config breakout_series"
  let ?q = "RSI_period Config"
  from t have pt: "\<forall>i<length breakout_series.
              (f_support ?df ! i = NaN) = (Suc i < MA_default_period Config) \<and>
              (f_resistance ?df ! i = NaN) = (Suc i < MA_default_period Config) \<and>
              (f_BB_middle ?df ! i = NaN) = (Suc i < Bollinger_period Config) \<and>
              (f_BB_upper ?df ! i = NaN) = (Suc i < Bollinger_period Config) \<and>
              (f_BB_lower ?df ! i = NaN) = (Suc i < Bollinger_period Config) \<and>
              (rsi_gain ?q (column c_close breakout_series) ! i = NaN) = (Suc i < ?q) \<and>
              (rsi_loss ?q (column c_close breakout_series) ! i = NaN) = (Suc i < ?q) \<and>
              (f_RSI ?df ! i = NaN) =
                (Suc i < ?q \<or> (avg_gain ?q (map c_close breakout_series) i = 0 \<and>
                                avg_loss ?q (map c_close breakout_series) i = 0))"
    by blast
  have n: "length breakout_series = 21" by (simp add: breakout_series_facts)
  from pt n have p18: "f_support ?df ! 18 = NaN" by (simp add: Config_simps)
  from pt n have p19: "f_support ?df ! 19 \<noteq> NaN" "f_BB_upper ?df ! 19 \<noteq> NaN"
    by (simp_all add: Config_simps)
  from pt n have p13: "rsi_gain ?q (column c_close breakout_series) ! 13 \<noteq> NaN"
    by (simp add: Config_simps)
  from pt n have p12: "f_RSI ?df ! 12 = NaN" by (simp add: Config_simps)
  from t have lens: "map fst (f_MA ?df) = MA_periods Config"
    "length (f_trend_break ?df) = length breakout_series"
    "length (f_RSI ?df) = length breakout_series"
    "undefined_prefix (f_support ?df) = min (MA_default_period Config - 1) (length breakout_series)"
    "undefined_prefix (f_BB_lower ?df) = min (Bollinger_period Config - 1) (length breakout_series)"
    "undefined_prefix (rsi_loss ?q (column c_close breakout_series)) =
       min (?q - 1) (length breakout_series)"
    by blast+
  from e have empty: "length (f_RSI (calculate_technical_indicators exact_unit Config [])) = length ([] :: candle list)"
    "length (f_trend_break (calculate_technical_indicators exact_unit Config [])) = length ([] :: candle list)"
    "undefined_prefix (f_support (calculate_technical_indicators exact_unit Config [])) =
       min (MA_default_period Config - 1) (length ([] :: candle list))"
    by blast+
  show ?thesis
    using n p18 p19 p13 p12 lens empty by (simp add: Config_simps)
qed

text \<open>
  The claim as stated has a prefix of exactly \<open>p - 1\<close> entries. On a series of 21 bars
  the 50-period moving average is missing everywhere: its prefix has 21 entries, not 49.
  On 14 bars with the same close the 14-period RSI is missing everywhere: its prefix has
  14 entries, not 13.
\<close>

theorem short_series_prefix_counterexample:
  "map_of (f_MA (calculate_technical_indicators exact_unit Config breakout_series)) 50 =
     Some (rolling mean_agg 50 (column c_close breakout_series)) \<and>
   length breakout_series = 21 \<and>
   undefined_prefix (rolling mean_agg 50 (column c_close breakout_series)) = 21 \<and>
   undefined_prefix (rolling mean_agg 50 (column c_close breakout_series)) \<noteq> 50 - 1 \<and>
   length flat_series = 14 \<and>
   undefined_prefix (f_RSI (calculate_technical_indicators exact_unit Config flat_series)) = 14 \<and>
   undefined_prefix (f_RSI (calculate_technical_indicators exact_unit Config flat_series)) \<noteq>
     RSI_period Config - 1"
proof -
  have "rolling mean_agg 50 (column c_close breakout_series) = replicate 21 NaN"
    using rolling_all_NaN [of breakout_series 50 mean_agg c_close]
    by (simp add: breakout_series_facts)
  moreover have "length flat_series = 14" by (simp add: flat_series_def)
  moreover have
    "undefined_prefix (f_RSI (calculate_technical_indicators exact_unit Config flat_series)) = 14"
    unfolding flat_series_RSI by (simp add: undefined_prefix_def)
  ultimately show ?thesis
    by (simp add: frame_fields [of exact_unit Config breakout_series] map_of_periods Config_simps
                  breakout_series_facts undefined_prefix_def)
qed

section \<open>Fetch parameters\<close>

text \<open>
  Claim C7, as amended. For a monitored symbol, when the clock can be read, the fetch
  sends one request; its start time is computed from the days argument, replaced by the
  configured default when it is absent or zero and then capped at the configured maximum
  (365), and its interval is the interval argument, replaced by the configured default
  ('1d') only when it is absent or empty. Membership of the interval in the allowed set
  is not checked.
\<close>

theorem fetch_request_parameters:
  assumes valid: "is_valid_symbol cfg symbol"
    and clock: "start_time_of ev (effective_days cfg days) = Inr start"
  shows "snd (get_historical_data cfg ev symbol interval days) =
           [(symbol, effective_interval cfg interval, start)] \<and>
         effective_days cfg days =
           (case days of
              None \<Rightarrow> min (ANALYSIS_default_days cfg) (ANALYSIS_max_days cfg)
            | Some d \<Rightarrow>
                if d = 0 then min (ANALYSIS_default_days cfg) (ANALYSIS_max_days cfg)
                else min d (ANALYSIS_max_days cfg)) \<and>
         effective_interval cfg interval =
           (case interval of
              None \<Rightarrow> TIMEFRAMES_default cfg
            | Some s \<Rightarrow> if s = [] then TIMEFRAMES_default cfg else s)"
proof -
  have "snd (get_historical_data cfg ev symbol interval days) =
           [(symbol, effective_interval cfg interval, start)]"
    using valid clock
    by (simp add: get_historical_data_def get_historical_data_body_def Let_def
             split: sum.splits prod.splits)
  moreover have "effective_days cfg days =
           (case days of
              None \<Rightarrow> min (ANALYSIS_default_days cfg) (ANALYSIS_max_days cfg)
            | Some d \<Rightarrow>
                if d = 0 then min (ANALYSIS_default_days cfg) (ANALYSIS_max_days cfg)
                else min d (ANALYSIS_max_days cfg))"
    by (auto simp: effective_days_def Let_def min_def split: option.splits)
  ultimately show ?thesis by (simp add: effective_interval_def)
qed

theorem fetch_request_parameters_witness:
  "is_valid_symbol Config ''BTCUSDT'' \<and>
   start_time_of sample_env (effective_days Config (Some 400)) = Inr 1668464000000 \<and>
   snd (get_historical_data Config sample_env ''BTCUSDT'' None (Some 400)) =
     [(''BTCUSDT'', ''1d'', 1668464000000)] \<and>
   effective_days Config (Some 400) = 365"
proof -
  have h1: "is_valid_symbol Config ''BTCUSDT''"
    by (simp add: is_valid_symbol_def Config_simps)
  have d: "effective_days Config (Some 400) = 365"
    by (simp add: effective_days_def Config_simps)
  have h2: "start_time_of sample_env (effective_days Config (Some 400)) = Inr 1668464000000"
    by (simp add: d)
  show ?thesis
    using fetch_request_parameters [OF h1 h2, of None] h1 h2 d
    by (simp add: effective_interval_def Config_simps)
qed

text \<open>
  The claim as stated has an interval outside the allowed set replaced by the default.
  The interval 7x is not allowed (\<open>get_timeframe\<close> would answer 1d for it), and the
  request goes out with 7x.
\<close>

theorem interval_not_validated_counterexample:
  "''7x'' \<notin> set (TIMEFRAMES_available Config) \<and>
   get_timeframe Config (Some ''7x'') = ''1d'' \<and>
   snd (get_historical_data Config sample_env ''BTCUSDT'' (Some ''7x'') (Some 30)) =
     [(''BTCUSDT'', ''7x'', 1697408000000)]"
  by (simp add: get_historical_data_def get_historical_data_body_def Let_def
                effective_interval_def effective_days_def is_valid_symbol_def
                get_timeframe_def Config_def)

section \<open>Invalid symbols\<close>

text \<open>
  Claim C8. For a symbol that is not in the monitored set the fetch fails (it returns
  \<open>None\<close>) and no request is sent to the exchange; whenever the clock can be read,
  the exception raised in the body is the invalid-symbol error, raised before the request.
\<close>

theorem invalid_symbol_rejected:
  assumes "\<not> is_valid_symbol cfg symbol"
  shows "get_historical_data cfg ev symbol interval days = (None, []) \<and>
         (\<forall>start. start_time_of ev (effective_days cfg days) = Inr start \<longrightarrow>
            get_historical_data_body cfg ev symbol interval days =
              (Inl (ValueError (invalid_symbol_prefix @ symbol)), []))"
  using assms
  by (auto simp: get_historical_data_def get_historical_data_body_def Let_def
           split: sum.splits)

theorem invalid_symbol_rejected_witness:
  "\<not> is_valid_symbol Config ''DOGEUSDT'' \<and>
   get_historical_data Config sample_env ''DOGEUSDT'' (Some ''1d'') (Some 30) = (None, []) \<and>
   start_time_of sample_env (effective_days Config (Some 30)) = Inr 1697408000000 \<and>
   get_historical_data_body Config sample_env ''DOGEUSDT'' (Some ''1d'') (Some 30) =
     (Inl (ValueError (invalid_symbol_prefix @ ''DOGEUSDT'')), [])"
proof -
  have h: "\<not> is_valid_symbol Config ''DOGEUSDT''"
    by (simp add: is_valid_symbol_def Config_simps)
  have c: "start_time_of sample_env (effective_days Config (Some 30)) = Inr 1697408000000"
    by (simp add: effective_days_def Config_simps)
  show ?thesis
    using invalid_symbol_rejected [OF h, of sample_env "Some ''1d''" "Some 30"] h c
    by simp
qed

section \<open>Alert ledger\<close>

text \<open>
  Claim C9, as amended. After any sequence of \<open>add_alert\<close> calls on the empty ledger,
  the ledger holds at most five alerts, with pairwise different ids that are all in the
  set of seen ids, and they are alerts of the calls in arrival order. While no more than
  1000 different ids have arrived, the ledger is the last five of the calls that brought
  an id for the first time, and the seen ids are all ids that arrived. A call whose id is
  in the set of seen ids changes nothing. A call with a new id appends its alert, keeps
  the last five, and records the id; when the set of seen ids then has more than 1000
  entries it becomes exactly the ids of the alerts retained, so that an id seen earlier
  and no longer retained counts as new again.
\<close>

theorem alert_ledger:
  "ledger_inv (add_alerts agent_init calls) \<and>
   subseq (alerts (add_alerts agent_init calls)) (map alert_of calls) \<and>
   (length (remdups (map call_id calls)) \<le> 1000 \<longrightarrow>
      alerts (add_alerts agent_init calls) = tail 5 (map alert_of (first_seen [] calls)) \<and>
      processed_alerts (add_alerts agent_init calls) = fset_of_list (map call_id calls)) \<and>
   (alert_id |\<in>| processed_alerts s \<longrightarrow> add_alert s now msg alert_id = s) \<and>
   (alert_id |\<notin>| processed_alerts s \<longrightarrow>
      alerts (add_alert s now msg alert_id) =
        tail 5 (alerts s @ [\<lparr> message = msg, timestamp = now, a_id = alert_id \<rparr>]) \<and>
      processed_alerts (add_alert s now msg alert_id) =
        (if 1000 < fcard (finsert alert_id (processed_alerts s))
         then fset_of_list (map a_id (alerts (add_alert s now msg alert_id)))
         else finsert alert_id (processed_alerts s)))"
proof -
  have inv: "ledger_inv (add_alerts agent_init calls)"
    using ledger_inv_init by (rule ledger_inv_add_alerts)
  have a: "alerts (add_alerts agent_init calls) = tail 5 (accepted agent_init calls)"
    using alerts_add_alerts [of agent_init calls] by (simp add: agent_init_def)
  have sub: "subseq (alerts (add_alerts agent_init calls)) (map alert_of calls)"
    unfolding a using tail_subseq accepted_subseq by (rule subseq_order.trans)
  have f: "length (remdups (map call_id calls)) \<le> 1000 \<longrightarrow>
      alerts (add_alerts agent_init calls) = tail 5 (map alert_of (first_seen [] calls)) \<and>
      processed_alerts (add_alerts agent_init calls) = fset_of_list (map call_id calls)"
  proof
    assume "length (remdups (map call_id calls)) \<le> 1000"
    then have "fcard (processed_alerts agent_init |\<union>| fset_of_list (map call_id calls)) \<le> 1000"
      by (simp add: agent_init_def fcard_fset_of_list del: fset_of_list_map)
    moreover have "fset_of_list [] = processed_alerts agent_init"
      by (simp add: agent_init_def)
    ultimately have "accepted agent_init calls = map alert_of (first_seen [] calls) \<and>
         processed_alerts (add_alerts agent_init calls) =
           processed_alerts agent_init |\<union>| fset_of_list (map call_id calls)"
      by (intro accepted_first_seen)
    moreover have "processed_alerts agent_init |\<union>| fset_of_list (map call_id calls) =
        fset_of_list (map call_id calls)" by (simp add: agent_init_def del: fset_of_list_map)
    ultimately show
      "alerts (add_alerts agent_init calls) = tail 5 (map alert_of (first_seen [] calls)) \<and>
       processed_alerts (add_alerts agent_init calls) = fset_of_list (map call_id calls)"
      unfolding a by (simp del: fset_of_list_map)
  qed
  show ?thesis
    using inv sub f add_alert_seen [of alert_id s now msg] add_alert_new [of alert_id s now msg]
    by blast
qed

theorem alert_ledger_witness:
  "length (remdups (map call_id six_calls)) \<le> 1000 \<and>
   alerts (add_alerts agent_init six_calls) =
     [\<lparr> message = ''second'', timestamp = 2, a_id = ''a2'' \<rparr>,
      \<lparr> message = ''third'', timestamp = 3, a_id = ''a3'' \<rparr>,
      \<lparr> message = ''fourth'', timestamp = 4, a_id = ''a4'' \<rparr>,
      \<lparr> message = ''fifth'', timestamp = 5, a_id = ''a5'' \<rparr>,
      \<lparr> message = ''sixth'', timestamp = 6, a_id = ''a6'' \<rparr>] \<and>
   processed_alerts (add_alerts agent_init six_calls) =
     fset_of_list [''a1'', ''a2'', ''a3'', ''a4'', ''a5'', ''a6''] \<and>
   ''a6'' |\<in>| processed_alerts (add_alerts agent_init six_calls) \<and>
   add_alert (add_alerts agent_init six_calls) 7 ''again'' ''a6'' =
     add_alerts agent_init six_calls"
proof -
  have h: "length (remdups (map call_id six_calls)) \<le> 1000"
    by (simp add: six_calls_def call_id_def)
  have fs: "map alert_of (first_seen [] six_calls) =
     [\<lparr> message = ''first'', timestamp = 1, a_id = ''a1'' \<rparr>,
      \<lparr> message = ''second'', timestamp = 2, a_id = ''a2'' \<rparr>,
      \<lparr> message = ''third'', timestamp = 3, a_id = ''a3'' \<rparr>,
      \<lparr> message = ''fourth'', timestamp = 4, a_id = ''a4'' \<rparr>,
      \<lparr> message = ''fifth'', timestamp = 5, a_id = ''a5'' \<rparr>,
      \<lparr> message = ''sixth'', timestamp = 6, a_id = ''a6'' \<rparr>]"
    by (simp add: six_calls_def call_id_def alert_of_def)
  have ids: "map call_id six_calls = [''a1'', ''a2'', ''a3'', ''a4'', ''a5'', ''a6'']"
    by (simp add: six_calls_def call_id_def)
  note t = alert_ledger [of six_calls "''a6''" "add_alerts agent_init six_calls" 7 "''again''"]
  from t h have al: "alerts (add_alerts agent_init six_calls) =
                       tail 5 (map alert_of (first_seen [] six_calls))"
    and pr: "processed_alerts (add_alerts agent_init six_calls) =
               fset_of_list (map call_id six_calls)"
    by blast+
  have mem: "''a6'' |\<in>| processed_alerts (add_alerts agent_init six_calls)"
    unfolding pr ids by simp
  with t have same: "add_alert (add_alerts agent_init six_calls) 7 ''again'' ''a6'' =
     add_alerts agent_init six_calls" by blast
  show ?thesis
    using h mem same by (simp add: al fs pr ids tail_def)
qed

text \<open>
  The claim as stated has an alert whose id was already seen never added again. After
  1001 calls with the ids 0 to 1000 the set of seen ids has been collapsed to the ids 996
  to 1000; a further call with the id 0 is accepted, and the ledger then holds the ids
  997, 998, 999, 1000 and 0, which are not the last five ids that arrived for the first
  time.
\<close>

theorem seen_id_readded_counterexample:
  "(0::nat) \<in> set (map call_id many_calls) \<and>
   map a_id (alerts (add_alerts agent_init many_calls)) = [996, 997, 998, 999, 1000] \<and>
   map a_id (alerts (add_alerts agent_init (many_calls @ [(1001, ''again'', 0)]))) =
     [997, 998, 999, 1000, 0] \<and>
   first_seen [] (many_calls @ [(1001, ''again'', 0)]) = many_calls \<and>
   alerts (add_alerts agent_init (many_calls @ [(1001, ''again'', 0)])) \<noteq>
     tail 5 (map alert_of (first_seen [] (many_calls @ [(1001, ''again'', 0)])))"
proof -
  let ?s2 = "add_alerts agent_init many_calls"
  let ?s3 = "add_alert ?s2 1001 ''again'' 0"
  have mem: "(0::nat) \<in> set (map call_id many_calls)"
    unfolding many_calls_ids by simp
  have new: "0 |\<notin>| processed_alerts ?s2"
    unfolding many_calls_state(2) by (simp add: fset_of_list_elem)
  have "map a_id (alerts ?s3) = tail 5 (map a_id (alerts ?s2) @ [0])"
    unfolding add_alert_new(1) [OF new] by (simp add: map_tail)
  then have a3: "map a_id (alerts ?s3) = [997, 998, 999, 1000, 0]"
    unfolding many_calls_state(1) by (simp add: tail_def)
  have s3: "add_alerts agent_init (many_calls @ [(1001, ''again'', 0)]) = ?s3"
    unfolding add_alerts_append by simp
  have "first_seen [] (many_calls @ [(1001, ''again'', 0)]) = first_seen [] many_calls"
    by (rule first_seen_append_seen) (simp add: call_id_def many_calls_ids)
  also have "\<dots> = many_calls"
    by (rule first_seen_fresh) (simp_all add: many_calls_ids)
  finally have fs: "first_seen [] (many_calls @ [(1001, ''again'', 0)]) = many_calls" .
  have "map a_id (map alert_of many_calls) = map call_id many_calls"
    by (simp add: alert_of_def call_id_def)
  then have "map a_id (tail 5 (map alert_of many_calls)) = tail 5 [0..<1001]"
    unfolding map_tail many_calls_ids by (rule arg_cong)
  also have "\<dots> = [996..<1001]" by (simp add: tail_def)
  also have "\<dots> = [996, 997, 998, 999, 1000]" by (simp add: upt_rec)
  finally have "map a_id (tail 5 (map alert_of many_calls)) \<noteq> map a_id (alerts ?s3)"
    unfolding a3 by simp
  then have ne: "alerts ?s3 \<noteq> tail 5 (map alert_of many_calls)" by auto
  show ?thesis
    unfolding s3 fs using mem many_calls_state(1) a3 ne by simp
qed

section \<open>Support never exceeds resistance\<close>

text \<open>
  Claim C10. When every candle has its low at most its high, then at every position where
  the support and the resistance series are both defined, the support is at most the
  resistance: they are the minimum of the lows and the maximum of the highs of the same
  window.
\<close>

theorem support_le_resistance:
  assumes wf: "\<forall>c \<in> set cs. c_low c \<le> c_high c"
    and i: "i < length cs"
    and s: "fst (calculate_support_resistance cfg cs) ! i = Num s"
    and r: "snd (calculate_support_resistance cfg cs) ! i = Num r"
  shows "s \<le> r"
proof -
  define p where "p = MA_default_period cfg"
  let ?lo = "map c_low cs" and ?hi = "map c_high cs"
  have s': "(if Suc i < p then NaN else min_agg (window p i ?lo)) = Num s"
    unfolding p_def using s support_nth [OF i, of cfg] by metis
  have r': "(if Suc i < p then NaN else max_agg (window p i ?hi)) = Num r"
    unfolding p_def using r resistance_nth [OF i, of cfg] by metis
  from s' have full: "\<not> Suc i < p" by (auto split: if_splits)
  show ?thesis
  proof (cases "p = 0")
    case True
    then have "window p i ?lo = []" by (simp add: window_def)
    with s' full show ?thesis by (simp add: min_agg_def)
  next
    case False
    then have pos: "0 < p" by simp
    have lo_in: "c_low (cs ! i) \<in> set (window p i ?lo)"
      using nth_in_window [of i ?lo p] i pos by simp
    have hi_in: "c_high (cs ! i) \<in> set (window p i ?hi)"
      using nth_in_window [of i ?hi p] i pos by simp
    have "s = Min (set (window p i ?lo))"
      using s' full lo_in by (auto simp: min_agg_def split: if_splits)
    then have "s \<le> c_low (cs ! i)" using lo_in by simp
    moreover have "r = Max (set (window p i ?hi))"
      using r' full hi_in by (auto simp: max_agg_def split: if_splits)
    then have "c_high (cs ! i) \<le> r" using hi_in by simp
    moreover have "c_low (cs ! i) \<le> c_high (cs ! i)" using wf i by simp
    ultimately show ?thesis by linarith
  qed
qed

theorem support_le_resistance_witness:
  "list_all (\<lambda>c. c_low c \<le> c_high c) (replicate 20 (candle_of 110 90 100 1000)) \<and>
   19 < length (replicate 20 (candle_of 110 90 100 1000)) \<and>
   fst (calculate_support_resistance Config (replicate 20 (candle_of 110 90 100 1000))) ! 19
     = Num 90 \<and>
   snd (calculate_support_resistance Config (replicate 20 (candle_of 110 90 100 1000))) ! 19
     = Num 110 \<and>
   (90::real) \<le> 110"
proof -
  let ?cs = "replicate 20 (candle_of 110 90 100 1000)"
  have h1: "\<forall>c \<in> set ?cs. c_low c \<le> c_high c" by (simp add: candle_of_def)
  have h2: "19 < length ?cs" by simp
  have h3: "fst (calculate_support_resistance Config ?cs) ! 19 = Num 90"
    by (simp add: support_nth Config_simps window_replicate min_agg_def candle_of_def)
  have h4: "snd (calculate_support_resistance Config ?cs) ! 19 = Num 110"
    by (simp add: resistance_nth Config_simps window_replicate max_agg_def candle_of_def)
  show ?thesis
    using support_le_resistance [OF h1 h2 h3 h4] h1 h2 h3 h4 by (simp add: list_all_iff)
qed

end
